theory Spec2Isabelle
  imports Complex_Main "HOL-Library.Product_Lexorder" "HOL-Library.Word"
begin

section \<open>Python values\<close>

text \<open>
  A Python \<open>str\<close> is a sequence of Unicode code points; a code point is a natural
  number.  String literals of the source are written \<open>cps ''...''\<close>.  Times
  (\<open>time.time()\<close>) and scores are Python floats; they are modelled by the real
  numbers they denote, so comparisons are exact and the rounding of binary floating
  point addition is not part of the model.
\<close>

type_synonym pystr = "nat list"

abbreviation cps :: "string \<Rightarrow> pystr" where
  "cps s \<equiv> map of_char s"

subsection \<open>Character classes\<close>

text \<open>
  The regular expressions of the source are compiled for \<open>str\<close>, so \<open>\s\<close>,
  \<open>\d\<close>, \<open>\w\<close> and \<open>\b\<close> follow the Unicode database of the
  interpreter, as do \<open>str.lower\<close>, \<open>str.strip\<close>, \<open>str.split\<close> and
  \<open>int\<close>.  The database is not part of the repository: on ASCII its content is
  written out below, beyond ASCII it is a parameter \<open>U\<close> of the model.  Every
  code point has one class: a decimal digit (with its value) is a word character and
  never white space.
\<close>

datatype uclass = Space | Digit nat | Alnum | Other

record unicode =
  u_class :: "nat \<Rightarrow> uclass"
  u_lower :: "pystr \<Rightarrow> pystr"

definition ascii_class :: "nat \<Rightarrow> uclass" where
  "ascii_class c =
     (if (9 \<le> c \<and> c \<le> 13) \<or> (28 \<le> c \<and> c \<le> 32) then Space
      else if 48 \<le> c \<and> c \<le> 57 then Digit (c - 48)
      else if (65 \<le> c \<and> c \<le> 90) \<or> (97 \<le> c \<and> c \<le> 122) then Alnum
      else Other)"

text \<open>The en dash U+2013 (8211), which the source names in a pattern, is punctuation.\<close>

definition cls :: "unicode \<Rightarrow> nat \<Rightarrow> uclass" where
  "cls U c =
     (if c < 128 then ascii_class c else if c = 8211 then Other else u_class U c)"

definition is_space :: "unicode \<Rightarrow> nat \<Rightarrow> bool" where
  "is_space U c = (cls U c = Space)"

definition is_digit :: "unicode \<Rightarrow> nat \<Rightarrow> bool" where
  "is_digit U c = (case cls U c of Digit v \<Rightarrow> True | _ \<Rightarrow> False)"

definition digit_value :: "unicode \<Rightarrow> nat \<Rightarrow> nat" where
  "digit_value U c = (case cls U c of Digit v \<Rightarrow> v | _ \<Rightarrow> 0)"

text \<open>\<open>\w\<close>: alphanumeric or the underscore (95).\<close>

definition is_word :: "unicode \<Rightarrow> nat \<Rightarrow> bool" where
  "is_word U c =
     (c = 95 \<or> (case cls U c of Digit v \<Rightarrow> True | Alnum \<Rightarrow> True | _ \<Rightarrow> False))"

text \<open>
  \<open>\b\<close> between two neighbouring positions; \<open>None\<close> is the start or the end
  of the string.
\<close>

definition word_opt :: "unicode \<Rightarrow> nat option \<Rightarrow> bool" where
  "word_opt U x = (case x of None \<Rightarrow> False | Some c \<Rightarrow> is_word U c)"

definition word_boundary :: "unicode \<Rightarrow> nat option \<Rightarrow> nat option \<Rightarrow> bool" where
  "word_boundary U l r = (word_opt U l \<noteq> word_opt U r)"

definition first_cp :: "pystr \<Rightarrow> nat option" where
  "first_cp s = (case s of [] \<Rightarrow> None | c # cs \<Rightarrow> Some c)"

text \<open>
  A table for concrete runs on ASCII text, where the parameter is never consulted.
\<close>

definition ascii_only :: unicode where
  "ascii_only = \<lparr>u_class = (\<lambda>c. Other), u_lower = (\<lambda>s. s)\<rparr>"

subsection \<open>String methods\<close>

definition ascii_lower :: "nat \<Rightarrow> nat" where
  "ascii_lower c = (if 65 \<le> c \<and> c \<le> 90 then c + 32 else c)"

definition py_lower :: "unicode \<Rightarrow> pystr \<Rightarrow> pystr" where
  "py_lower U s = (if list_all (\<lambda>c. c < 128) s then map ascii_lower s else u_lower U s)"

definition py_strip :: "unicode \<Rightarrow> pystr \<Rightarrow> pystr" where
  "py_strip U s = rev (dropWhile (is_space U) (rev (dropWhile (is_space U) s)))"

text \<open>\<open>sub in s\<close> and \<open>s.startswith(sub)\<close>.\<close>

fun startswith :: "pystr \<Rightarrow> pystr \<Rightarrow> bool" where
  "startswith s [] = True"
| "startswith [] (p # ps) = False"
| "startswith (c # cs) (p # ps) = (c = p \<and> startswith cs ps)"

fun contains :: "pystr \<Rightarrow> pystr \<Rightarrow> bool" where
  "contains [] sub = (sub = [])"
| "contains (c # cs) sub = (startswith (c # cs) sub \<or> contains cs sub)"

text \<open>\<open>s.split()\<close>: the maximal runs of characters that are not white space.\<close>

fun split_ws :: "unicode \<Rightarrow> pystr \<Rightarrow> pystr \<Rightarrow> pystr list" where
  "split_ws U tok [] = (if tok = [] then [] else [tok])"
| "split_ws U tok (c # cs) =
     (if is_space U c then (if tok = [] then split_ws U [] cs else tok # split_ws U [] cs)
      else split_ws U (tok @ [c]) cs)"

definition py_split :: "unicode \<Rightarrow> pystr \<Rightarrow> pystr list" where
  "py_split U s = split_ws U [] s"

subsection \<open>Regular expression substitution\<close>

text \<open>
  \<open>re.sub(p, "", s)\<close> for a pattern \<open>p\<close> that matches no empty string: scan
  from the left, delete the match found at the current position and go on behind it,
  otherwise keep the character.  The matcher \<open>m prev rest\<close> gets the character
  before the position (for \<open>\b\<close>) and the text from the position on, and returns
  the length of the match, \<open>0\<close> for none.  \<open>skip\<close> counts the characters of the
  current match still to be deleted.
\<close>

fun re_delete ::
  "(nat option \<Rightarrow> pystr \<Rightarrow> nat) \<Rightarrow> nat option \<Rightarrow> nat \<Rightarrow> pystr \<Rightarrow> pystr" where
  "re_delete m prev skip [] = []"
| "re_delete m prev skip (c # cs) =
     (if 0 < skip then re_delete m (Some c) (skip - 1) cs
      else (case m prev (c # cs) of
              0 \<Rightarrow> c # re_delete m (Some c) 0 cs
            | Suc n \<Rightarrow> re_delete m (Some c) n cs))"

text \<open>Greedy \<open>\d+\<close> followed by \<open>\b\<close>: the text behind the digits.\<close>

definition digits_boundary :: "unicode \<Rightarrow> pystr \<Rightarrow> pystr option" where
  "digits_boundary U s =
     (case s of
        [] \<Rightarrow> None
      | c # cs \<Rightarrow>
          if is_digit U c
          then (if word_opt U (first_cp (dropWhile (is_digit U) cs)) then None
                else Some (dropWhile (is_digit U) cs))
          else None)"

text \<open>A literal followed by \<open>\s*\d+\b\<close>.\<close>

definition lit_ws_digits :: "unicode \<Rightarrow> pystr \<Rightarrow> pystr \<Rightarrow> pystr option" where
  "lit_ws_digits U w s =
     (if startswith s w then digits_boundary U (dropWhile (is_space U) (drop (length w) s))
      else None)"

text \<open>A literal followed by \<open>\d+\b\<close>.\<close>

definition lit_digits :: "unicode \<Rightarrow> pystr \<Rightarrow> pystr \<Rightarrow> pystr option" where
  "lit_digits U w s =
     (if startswith s w then digits_boundary U (drop (length w) s) else None)"

section \<open>The title normalizer\<close>

text \<open>
  \<open>normalize_title\<close> is defined twice, with the same body, in
  \<open>resolve_tmdb_tv_to_mlbd_url\<close> (movielinkbd_api.py, lines 512--526) and in
  analyze_tv_mapping.py (lines 52--65).
\<close>

text \<open>\<open>\(\d{4}\)\<close>\<close>

definition match_year :: "unicode \<Rightarrow> nat option \<Rightarrow> pystr \<Rightarrow> nat" where
  "match_year U prev s =
     (case s of
        [] \<Rightarrow> 0
      | c # cs \<Rightarrow>
          if c = 40
          then (if 5 \<le> length cs
                then (if list_all (is_digit U) (take 4 cs)
                      then (if cs ! 4 = 41 then 6 else 0) else 0)
                else 0)
          else 0)"

text \<open>
  \<open>\b(season\s*\d+|s\d+|ep\s*\d+|e\d+)\b\<close>.  The alternatives are tried in the
  order of the pattern.  Each repetition is greedy, and giving characters back never
  helps: white space is no digit, and between two digits there is no word boundary.
\<close>

definition match_tag :: "unicode \<Rightarrow> nat option \<Rightarrow> pystr \<Rightarrow> nat" where
  "match_tag U prev s =
     (if word_boundary U prev (first_cp s)
      then (case lit_ws_digits U (cps ''season'') s of
              Some r \<Rightarrow> length s - length r
            | None \<Rightarrow>
           (case lit_digits U (cps ''s'') s of
              Some r \<Rightarrow> length s - length r
            | None \<Rightarrow>
           (case lit_ws_digits U (cps ''ep'') s of
              Some r \<Rightarrow> length s - length r
            | None \<Rightarrow>
           (case lit_digits U (cps ''e'') s of
              Some r \<Rightarrow> length s - length r
            | None \<Rightarrow> 0))))
      else 0)"

text \<open>
  The noise list, in the order of the source; the third and the seventh word are
  Bengali and Devanagari, given by their code points.
\<close>

definition bangla_native :: pystr where
  "bangla_native = [2476, 2494, 2434, 2482, 2494]"

definition hindi_native :: pystr where
  "hindi_native = [2361, 2367, 2306, 2342, 2368]"

definition noise :: "pystr list" where
  "noise =
     [cps ''bangla dubbed'', cps ''bangla'', bangla_native, cps ''bd'',
      cps ''hindi dubbed'', cps ''hindi'', hindi_native,
      cps ''dual audio'', cps ''english dubbed'', cps ''english'', cps ''web-dl'',
      cps ''webdl'', cps ''webrip'', cps ''hdrip'', cps ''brrip'', cps ''dvdrip'',
      cps ''rip'', cps ''480p'', cps ''720p'', cps ''1080p'', cps ''4k'', cps ''uhd'',
      cps ''hd'', cps ''sd'']"

text \<open>\<open>\bw\b\<close> for a literal \<open>w\<close> (\<open>re.escape\<close> makes it one).\<close>

definition match_word :: "unicode \<Rightarrow> pystr \<Rightarrow> nat option \<Rightarrow> pystr \<Rightarrow> nat" where
  "match_word U w prev s =
     (if startswith s w
      then (if word_boundary U prev (first_cp s)
            then (if word_boundary U (Some (last w)) (first_cp (drop (length w) s))
                  then length w else 0)
            else 0)
      else 0)"

definition strip_year :: "unicode \<Rightarrow> pystr \<Rightarrow> pystr" where
  "strip_year U s = re_delete (match_year U) None 0 s"

definition strip_tags :: "unicode \<Rightarrow> pystr \<Rightarrow> pystr" where
  "strip_tags U s = re_delete (match_tag U) None 0 s"

definition strip_noise :: "unicode \<Rightarrow> pystr \<Rightarrow> pystr" where
  "strip_noise U s = foldl (\<lambda>t w. re_delete (match_word U w) None 0 t) s noise"

text \<open>\<open>re.sub(r"[^a-z0-9\s]", " ", s)\<close>\<close>

definition kept :: "unicode \<Rightarrow> nat \<Rightarrow> bool" where
  "kept U c = ((97 \<le> c \<and> c \<le> 122) \<or> (48 \<le> c \<and> c \<le> 57) \<or> is_space U c)"

definition blank_punct :: "unicode \<Rightarrow> pystr \<Rightarrow> pystr" where
  "blank_punct U s = map (\<lambda>c. if kept U c then c else 32) s"

text \<open>
  \<open>re.sub(r"\s+", " ", s)\<close>: every maximal run of white space becomes one
  space; \<open>run\<close> says that the character before was white space.
\<close>

fun collapse_run :: "unicode \<Rightarrow> bool \<Rightarrow> pystr \<Rightarrow> pystr" where
  "collapse_run U run [] = []"
| "collapse_run U run (c # cs) =
     (if is_space U c
      then (if run then collapse_run U True cs else 32 # collapse_run U True cs)
      else c # collapse_run U False cs)"

definition collapse_ws :: "unicode \<Rightarrow> pystr \<Rightarrow> pystr" where
  "collapse_ws U s = collapse_run U False s"

definition normalize_title :: "unicode \<Rightarrow> pystr \<Rightarrow> pystr" where
  "normalize_title U s =
     py_strip U (collapse_ws U (blank_punct U
       (strip_noise U (strip_tags U (strip_year U (py_strip U (py_lower U s)))))))"

subsection \<open>Evaluation on concrete titles\<close>

lemma noise_list:
  "noise =
     [[98, 97, 110, 103, 108, 97, 32, 100, 117, 98, 98, 101, 100], [98, 97, 110, 103, 108, 97],
      [2476, 2494, 2434, 2482, 2494], [98, 100],
      [104, 105, 110, 100, 105, 32, 100, 117, 98, 98, 101, 100], [104, 105, 110, 100, 105],
      [2361, 2367, 2306, 2342, 2368], [100, 117, 97, 108, 32, 97, 117, 100, 105, 111],
      [101, 110, 103, 108, 105, 115, 104, 32, 100, 117, 98, 98, 101, 100],
      [101, 110, 103, 108, 105, 115, 104], [119, 101, 98, 45, 100, 108],
      [119, 101, 98, 100, 108], [119, 101, 98, 114, 105, 112], [104, 100, 114, 105, 112],
      [98, 114, 114, 105, 112], [100, 118, 100, 114, 105, 112], [114, 105, 112],
      [52, 56, 48, 112], [55, 50, 48, 112], [49, 48, 56, 48, 112], [52, 107],
      [117, 104, 100], [104, 100], [115, 100]]"
  by (simp add: noise_def bangla_native_def hindi_native_def)

lemmas class_eval =
  is_space_def is_digit_def is_word_def digit_value_def cls_def ascii_class_def
  word_boundary_def word_opt_def first_cp_def ascii_only_def

lemmas string_eval =
  py_strip_def py_lower_def ascii_lower_def py_split_def

lemmas normalize_eval =
  normalize_title_def strip_year_def strip_tags_def strip_noise_def noise_list
  match_year_def match_tag_def match_word_def blank_punct_def kept_def collapse_ws_def
  lit_ws_digits_def lit_digits_def digits_boundary_def class_eval string_eval

subsection \<open>The shape of a normalized title\<close>

text \<open>
  A normalized title consists of the letters \<open>a\<close>--\<open>z\<close>, the digits
  \<open>0\<close>--\<open>9\<close> and single spaces between them.
\<close>

definition plain :: "nat \<Rightarrow> bool" where
  "plain c = ((97 \<le> c \<and> c \<le> 122) \<or> (48 \<le> c \<and> c \<le> 57) \<or> c = 32)"

fun tidy :: "unicode \<Rightarrow> bool \<Rightarrow> pystr \<Rightarrow> bool" where
  "tidy U run [] = True"
| "tidy U run (c # cs) =
     (if is_space U c then c = 32 \<and> \<not> run \<and> tidy U True cs else tidy U False cs)"

lemma tidy_collapse_run: "tidy U r (collapse_run U r s)"
  by (induction s arbitrary: r) (auto simp add: is_space_def cls_def ascii_class_def)

lemma collapse_run_tidy: "tidy U r s \<Longrightarrow> collapse_run U r s = s"
  by (induction s arbitrary: r) (auto split: if_splits)

lemma tidy_dropWhile: "tidy U r s \<Longrightarrow> tidy U r' (dropWhile (is_space U) s)"
  by (induction s arbitrary: r r') (auto split: if_splits)

lemma tidy_append: "tidy U r (xs @ ys) \<Longrightarrow> tidy U r xs"
  by (induction xs arbitrary: r) (auto split: if_splits)

lemma rstrip_prefix: "\<exists>ys. t = rev (dropWhile P (rev t)) @ ys"
proof -
  have "rev t = takeWhile P (rev t) @ dropWhile P (rev t)" by simp
  then have "t = rev (dropWhile P (rev t)) @ rev (takeWhile P (rev t))"
    by (metis rev_append rev_rev_ident)
  then show ?thesis ..
qed

lemma tidy_strip:
  assumes "tidy U r s"
  shows "tidy U r' (py_strip U s)"
proof -
  from assms have t: "tidy U r' (dropWhile (is_space U) s)" by (rule tidy_dropWhile)
  obtain ys where "dropWhile (is_space U) s = py_strip U s @ ys"
    unfolding py_strip_def using rstrip_prefix by blast
  with t show ?thesis by (metis tidy_append)
qed

lemma hd_rstrip:
  "rev (dropWhile P (rev t)) \<noteq> [] \<Longrightarrow> hd (rev (dropWhile P (rev t))) = hd t"
  using rstrip_prefix [of t P] by (metis hd_append2)

lemma py_strip_idem: "py_strip U (py_strip U s) = py_strip U s"
proof -
  define t where "t = dropWhile (is_space U) s"
  define y where "y = rev (dropWhile (is_space U) (rev t))"
  have "dropWhile (is_space U) y = y"
  proof (cases "y = []")
    case True
    then show ?thesis by simp
  next
    case False
    then have "hd y = hd t" unfolding y_def by (rule hd_rstrip)
    moreover from False have "t \<noteq> []" by (auto simp add: y_def)
    then have "\<not> is_space U (hd t)" unfolding t_def by (metis hd_dropWhile)
    ultimately show ?thesis using False by (simp add: dropWhile_eq_self_iff)
  qed
  then have "py_strip U y = y" by (simp add: py_strip_def y_def)
  then show ?thesis by (simp add: py_strip_def y_def t_def)
qed

lemma plain_collapse_run:
  "list_all (kept U) s \<Longrightarrow> list_all plain (collapse_run U r s)"
  by (induction s arbitrary: r) (auto simp add: kept_def plain_def)

lemma kept_blank_punct: "list_all (kept U) (blank_punct U s)"
  by (induction s) (auto simp add: blank_punct_def kept_def is_space_def cls_def ascii_class_def)

lemma plain_strip: "list_all plain s \<Longrightarrow> list_all plain (py_strip U s)"
  unfolding py_strip_def list_all_iff
  by (metis (no_types, lifting) set_dropWhileD set_rev)

lemma plain_normalize: "list_all plain (normalize_title U x)"
  unfolding normalize_title_def collapse_ws_def
  by (intro plain_strip plain_collapse_run kept_blank_punct)

lemma tidy_normalize: "tidy U False (normalize_title U x)"
  unfolding normalize_title_def collapse_ws_def
  by (rule tidy_strip [OF tidy_collapse_run])

lemma py_strip_normalize: "py_strip U (normalize_title U x) = normalize_title U x"
  unfolding normalize_title_def by (rule py_strip_idem)

lemma py_lower_plain:
  assumes "list_all plain s"
  shows "py_lower U s = s"
proof -
  from assms have "list_all (\<lambda>c. c < 128) s"
    by (auto simp add: list_all_iff plain_def)
  moreover from assms have "map ascii_lower s = s"
    by (induction s) (auto simp add: plain_def ascii_lower_def)
  ultimately show ?thesis by (simp add: py_lower_def)
qed

lemma strip_year_plain: "list_all plain s \<Longrightarrow> re_delete (match_year U) p 0 s = s"
  by (induction s arbitrary: p) (auto simp add: match_year_def plain_def)

lemma blank_punct_plain: "list_all plain s \<Longrightarrow> blank_punct U s = s"
  by (induction s)
    (auto simp add: blank_punct_def kept_def plain_def is_space_def cls_def ascii_class_def)

text \<open>The first steps of the normalizer leave a normalized title as it is.\<close>

lemma renormalize:
  "normalize_title U (normalize_title U x) =
     py_strip U (collapse_ws U (blank_punct U
       (strip_noise U (strip_tags U (normalize_title U x)))))"
proof -
  define y where "y = normalize_title U x"
  have p: "list_all plain y" unfolding y_def by (rule plain_normalize)
  have "py_strip U (py_lower U y) = y"
    using p by (simp add: py_lower_plain y_def py_strip_normalize)
  moreover have "strip_year U y = y"
    using p by (simp add: strip_year_def strip_year_plain)
  ultimately have "normalize_title U y =
      py_strip U (collapse_ws U (blank_punct U (strip_noise U (strip_tags U y))))"
    by (simp add: normalize_title_def)
  then show ?thesis by (simp add: y_def)
qed

lemma normalize_tail_fixed:
  "py_strip U (collapse_ws U (blank_punct U (normalize_title U x))) = normalize_title U x"
proof -
  define y where "y = normalize_title U x"
  have "blank_punct U y = y"
    unfolding y_def by (rule blank_punct_plain [OF plain_normalize])
  moreover have "collapse_ws U y = y"
    unfolding collapse_ws_def y_def by (rule collapse_run_tidy [OF tidy_normalize])
  moreover have "py_strip U y = y" by (simp add: y_def py_strip_normalize)
  ultimately show ?thesis by (simp add: y_def)
qed

subsection \<open>Deleting never lengthens\<close>

lemma length_re_delete: "length (re_delete m p k s) \<le> length s"
proof (induction s arbitrary: p k)
  case Nil
  then show ?case by simp
next
  case (Cons c cs)
  show ?case
  proof (cases "0 < k")
    case True
    then show ?thesis using Cons [of "Some c" "k - 1"] by simp
  next
    case False
    then show ?thesis
      using Cons [of "Some c" 0] Cons [of "Some c"]
      by (auto split: nat.splits simp add: le_SucI)
  qed
qed

lemma re_delete_same_length:
  "length (re_delete m p 0 s) = length s \<Longrightarrow> re_delete m p 0 s = s"
proof (induction s arbitrary: p)
  case Nil
  then show ?case by simp
next
  case (Cons c cs)
  show ?case
  proof (cases "m p (c # cs)")
    case 0
    then show ?thesis using Cons by simp
  next
    case (Suc n)
    have "length (re_delete m (Some c) n cs) \<le> length cs" by (rule length_re_delete)
    then show ?thesis using Cons.prems Suc by simp
  qed
qed

lemma length_fold_delete:
  "length (foldl (\<lambda>t w. re_delete (f w) None 0 t) s ws) \<le> length s"
proof (induction ws arbitrary: s)
  case Nil
  then show ?case by simp
next
  case (Cons w ws)
  have "length (re_delete (f w) None 0 s) \<le> length s" by (rule length_re_delete)
  with Cons [of "re_delete (f w) None 0 s"] show ?case by simp
qed

lemma fold_delete_same_length:
  "length (foldl (\<lambda>t w. re_delete (f w) None 0 t) s ws) = length s \<Longrightarrow>
   foldl (\<lambda>t w. re_delete (f w) None 0 t) s ws = s"
proof (induction ws arbitrary: s)
  case Nil
  then show ?case by simp
next
  case (Cons w ws)
  let ?s' = "re_delete (f w) None 0 s"
  have a: "length (foldl (\<lambda>t w. re_delete (f w) None 0 t) ?s' ws) \<le> length ?s'"
    by (rule length_fold_delete)
  have b: "length ?s' \<le> length s" by (rule length_re_delete)
  from Cons.prems a b have "length ?s' = length s" by simp
  then have "?s' = s" by (rule re_delete_same_length)
  with Cons show ?case by simp
qed

lemma length_collapse_run: "length (collapse_run U r s) \<le> length s"
  by (induction s arbitrary: r) (auto simp add: le_SucI)

lemma length_py_strip: "length (py_strip U s) \<le> length s"
  unfolding py_strip_def
  by (metis length_dropWhile_le length_rev order_trans)

lemma length_normalize_tail:
  "length (py_strip U (collapse_ws U (blank_punct U z))) \<le> length z"
proof -
  have "length (py_strip U (collapse_ws U (blank_punct U z)))
      \<le> length (collapse_ws U (blank_punct U z))"
    by (rule length_py_strip)
  also have "\<dots> \<le> length (blank_punct U z)"
    unfolding collapse_ws_def by (rule length_collapse_run)
  also have "\<dots> = length z" by (simp add: blank_punct_def)
  finally show ?thesis .
qed

subsection \<open>Idempotence\<close>

lemma normalize_ascii_season_dash:
  "normalize_title ascii_only (cps ''season-1'') = cps ''season 1''"
  by (simp add: normalize_eval)

lemma normalize_ascii_season_space:
  "normalize_title ascii_only (cps ''season 1'') = []"
  by (simp add: normalize_eval)

lemma normalize_ascii_dark:
  "normalize_title ascii_only (cps ''Dark (2017) S01 720p'') = cps ''dark''"
  by (simp add: normalize_eval)

lemma residue_ascii_dark:
  "strip_noise ascii_only (strip_tags ascii_only (cps ''dark'')) = cps ''dark''"
  by (simp add: normalize_eval)

text \<open>
  Claim C6 says that normalizing twice is normalizing once, for every input.  The
  title \<open>season-1\<close> refutes it: the dash hides the season tag from the first
  pass, which turns it into a space, and the second pass deletes \<open>season 1\<close>.
\<close>

theorem normalize_title_not_idempotent:
  "normalize_title ascii_only (normalize_title ascii_only (cps ''season-1''))
     \<noteq> normalize_title ascii_only (cps ''season-1'')"
  unfolding normalize_ascii_season_dash normalize_ascii_season_space by simp

text \<open>
  Claim C6, amended.  Normalizing a normalized title again changes nothing exactly when
  the first pass has left no season or episode tag and no noise word behind, that is
  when deleting tags and noise words from \<open>normalize_title U x\<close> deletes nothing.
\<close>

theorem normalize_title_idempotent_iff:
  "normalize_title U (normalize_title U x) = normalize_title U x \<longleftrightarrow>
   strip_noise U (strip_tags U (normalize_title U x)) = normalize_title U x"
proof
  assume fixed: "normalize_title U (normalize_title U x) = normalize_title U x"
  define y where "y = normalize_title U x"
  define z where "z = strip_noise U (strip_tags U y)"
  from fixed have "length y = length (py_strip U (collapse_ws U (blank_punct U z)))"
    by (simp add: renormalize y_def z_def)
  then have 1: "length y \<le> length z" using length_normalize_tail [of U z] by simp
  have 2: "length z \<le> length (strip_tags U y)"
    unfolding z_def strip_noise_def by (rule length_fold_delete)
  have 3: "length (strip_tags U y) \<le> length y"
    unfolding strip_tags_def by (rule length_re_delete)
  from 1 2 3 have "length (strip_tags U y) = length y" by simp
  then have t: "strip_tags U y = y"
    unfolding strip_tags_def by (rule re_delete_same_length)
  from 1 2 3 t have "length z = length y" by simp
  then have "z = y"
    unfolding z_def t strip_noise_def by (rule fold_delete_same_length)
  then show "strip_noise U (strip_tags U (normalize_title U x)) = normalize_title U x"
    by (simp add: z_def y_def)
next
  assume "strip_noise U (strip_tags U (normalize_title U x)) = normalize_title U x"
  then show "normalize_title U (normalize_title U x) = normalize_title U x"
    by (simp add: renormalize normalize_tail_fixed)
qed

theorem normalize_title_idempotent_witness:
  "strip_noise ascii_only (strip_tags ascii_only
       (normalize_title ascii_only (cps ''Dark (2017) S01 720p'')))
     = normalize_title ascii_only (cps ''Dark (2017) S01 720p'') \<and>
   normalize_title ascii_only (normalize_title ascii_only (cps ''Dark (2017) S01 720p''))
     = normalize_title ascii_only (cps ''Dark (2017) S01 720p'')"
  using normalize_title_idempotent_iff [of ascii_only "cps ''Dark (2017) S01 720p''"]
  unfolding normalize_ascii_dark residue_ascii_dark by simp

section \<open>Query variants\<close>

text \<open>
  \<open>base_title\<close> (movielinkbd_api.py, lines 529--532; analyze_tv_mapping.py, lines
  68--71): the text before the first \<open>:\<close>, \<open>-\<close> or \<open>(\<close>, stripped.
\<close>

definition base_title :: "unicode \<Rightarrow> pystr \<Rightarrow> pystr" where
  "base_title U s = py_strip U (takeWhile (\<lambda>c. c \<noteq> 58 \<and> c \<noteq> 45 \<and> c \<noteq> 40) s)"

text \<open>
  movielinkbd_api.py, line 535:
  \<open>query_variants = [q for q in [tmdb_title, title_base] if q]\<close>.
\<close>

definition query_variants :: "unicode \<Rightarrow> pystr \<Rightarrow> pystr list" where
  "query_variants U tmdb_title = filter (\<lambda>q. q \<noteq> []) [tmdb_title, base_title U tmdb_title]"

text \<open>
  analyze_tv_mapping.py, lines 185--188: a query is appended unless it is empty or
  its lower-case form is the lower-case form of a query already in the list.
\<close>

definition add_query :: "unicode \<Rightarrow> pystr list \<Rightarrow> pystr \<Rightarrow> pystr list" where
  "add_query U queries q =
     (if q \<noteq> [] \<and> py_lower U q \<notin> set (map (py_lower U) queries) then queries @ [q]
      else queries)"

definition analyze_queries :: "unicode \<Rightarrow> pystr \<Rightarrow> pystr list" where
  "analyze_queries U name = foldl (add_query U) [] [name, base_title U name]"

lemma analyze_queries_cases:
  "analyze_queries U name =
     (if name = [] then (if base_title U name = [] then [] else [base_title U name])
      else if base_title U name = [] \<or> py_lower U (base_title U name) = py_lower U name
      then [name] else [name, base_title U name])"
  by (simp add: analyze_queries_def add_query_def)

text \<open>The analysis tool does what claim C7 says.\<close>

lemma analyze_queries_deduplicated:
  "distinct (map (py_lower U) (analyze_queries U name))"
  by (auto simp add: analyze_queries_cases)

lemma analyze_queries_equal_titles:
  "py_lower U (base_title U name) = py_lower U name \<Longrightarrow> length (analyze_queries U name) \<le> 1"
  by (simp add: analyze_queries_cases)

text \<open>A title that is its own base title is queried twice.\<close>

lemma query_variants_repeat:
  "t \<noteq> [] \<Longrightarrow> base_title U t = t \<Longrightarrow> query_variants U t = [t, t]"
  by (simp add: query_variants_def)

text \<open>
  Claim C7 fails in \<open>resolve_tmdb_tv_to_mlbd_url\<close>: the list is only filtered for
  empty strings.  For a title without \<open>:\<close>, \<open>-\<close> or \<open>(\<close> the base title
  is the title, and the same query is tried twice.
\<close>

theorem query_variants_breaking_bad:
  "query_variants ascii_only (cps ''Breaking Bad'') = [cps ''Breaking Bad'', cps ''Breaking Bad'']"
  by (simp add: query_variants_def base_title_def class_eval string_eval)

section \<open>From the gate page to the watch page\<close>

text \<open>
  What the two resolvers read from the response for a \<open>/getWatch/\<close> address: the
  \<open>content\<close> attribute of the first \<open>meta\<close> tag with
  \<open>http-equiv="refresh"\<close> (\<open>None\<close> without such a tag, the empty string when
  the attribute is missing), the \<open>.string\<close> of every \<open>script\<close> tag in
  document order (\<open>None\<close> where BeautifulSoup gives none), and the address the
  response was finally served from.
\<close>

record gate_page =
  meta_refresh :: "pystr option"
  scripts :: "pystr option list"
  resp_url :: pystr

text \<open>
  Both functions end in a dict \<open>{'success': False, 'error': ...}\<close> or in
  \<open>api_service.scrape_video_page(watch_url)\<close>.
\<close>

datatype chain_result = Failure pystr | ScrapeVideoPage pystr

text \<open>\<open>watch_url\<close> is \<open>None\<close> or a string; \<open>not watch_url\<close> holds for both
  \<open>None\<close> and the empty string.\<close>

definition truthy :: "pystr option \<Rightarrow> bool" where
  "truthy w = (case w of None \<Rightarrow> False | Some u \<Rightarrow> u \<noteq> [])"

fun after_first :: "pystr \<Rightarrow> pystr \<Rightarrow> pystr option" where
  "after_first sep [] = None"
| "after_first sep (c # cs) =
     (if startswith (c # cs) sep then Some (drop (length sep) (c # cs))
      else after_first sep cs)"

fun before_first :: "pystr \<Rightarrow> pystr \<Rightarrow> pystr" where
  "before_first sep [] = []"
| "before_first sep (c # cs) =
     (if startswith (c # cs) sep then [] else c # before_first sep cs)"

text \<open>
  \<open>if 'url=' in content: watch_url = content.split('url=')[1]\<close>: the text between
  the first \<open>url=\<close> and the next one, or the end.
\<close>

definition meta_refresh_url :: "gate_page \<Rightarrow> pystr option" where
  "meta_refresh_url g =
     (case meta_refresh g of
        None \<Rightarrow> None
      | Some content \<Rightarrow>
          (case after_first (cps ''url='') content of
             None \<Rightarrow> None
           | Some r \<Rightarrow> Some (before_first (cps ''url='') r)))"

definition redirects :: "pystr \<Rightarrow> bool" where
  "redirects str =
     (if contains str (cps ''window.location'') then True
      else contains str (cps ''location.href''))"

subsection \<open>The series path (scrape_series_episode_for_watch_url, lines 807--829)\<close>

text \<open>
  \<open>"([^"]*(watch|episode)[^"]*)"|'([^']*(watch|episode)[^']*)'\<close>, searched from the
  left: at a quote (34 or 39) the pattern matches when the same quote closes the
  text and the text between the two contains \<open>watch\<close> or \<open>episode\<close>; the
  group is that text.
\<close>

definition wanted_series :: "pystr \<Rightarrow> bool" where
  "wanted_series seg =
     (if contains seg (cps ''watch'') then True else contains seg (cps ''episode''))"

fun find_quoted_series :: "pystr \<Rightarrow> pystr option" where
  "find_quoted_series [] = None"
| "find_quoted_series (c # cs) =
     (if c = 34 \<or> c = 39
      then (if dropWhile (\<lambda>d. d \<noteq> c) cs \<noteq> []
            then (if wanted_series (takeWhile (\<lambda>d. d \<noteq> c) cs)
                  then Some (takeWhile (\<lambda>d. d \<noteq> c) cs)
                  else find_quoted_series cs)
            else find_quoted_series cs)
      else find_quoted_series cs)"

fun series_script_url :: "pystr option list \<Rightarrow> pystr option" where
  "series_script_url [] = None"
| "series_script_url (None # rest) = series_script_url rest"
| "series_script_url (Some str # rest) =
     (if str \<noteq> []
      then (if redirects str
            then (case find_quoted_series str of
                    Some u \<Rightarrow> Some u
                  | None \<Rightarrow> series_script_url rest)
            else series_script_url rest)
      else series_script_url rest)"

definition series_url_shape :: "pystr \<Rightarrow> bool" where
  "series_url_shape u =
     (if contains u (cps ''/watch/'') then True else contains u (cps ''/episode/''))"

definition absolute :: "pystr \<Rightarrow> pystr \<Rightarrow> pystr" where
  "absolute host u = (if startswith u (cps ''http'') then u else host @ u)"

definition series_gate :: "pystr \<Rightarrow> gate_page \<Rightarrow> chain_result" where
  "series_gate base_host g =
     (let watch_url = meta_refresh_url g;
          watch_url =
            (if \<not> truthy watch_url
             then (case series_script_url (scripts g) of
                     Some u \<Rightarrow> Some u
                   | None \<Rightarrow> watch_url)
             else watch_url);
          watch_url =
            (if \<not> truthy watch_url \<and> series_url_shape (resp_url g) then Some (resp_url g)
             else watch_url)
      in case watch_url of
           None \<Rightarrow> Failure (cps ''Could not resolve final watch URL'')
         | Some u \<Rightarrow>
             if u = [] then Failure (cps ''Could not resolve final watch URL'')
             else ScrapeVideoPage (absolute base_host u))"

subsection \<open>The movie path (scrape_movie_page_for_watch_url, lines 2104--2141)\<close>

text \<open>
  \<open>["']([^"']*watch[^"']*)["']\<close>: at a quote the pattern matches when a quote of
  either kind closes the text and the text between the two contains \<open>watch\<close>.
\<close>

definition quote :: "nat \<Rightarrow> bool" where
  "quote c = (c = 34 \<or> c = 39)"

fun find_quoted_movie :: "pystr \<Rightarrow> pystr option" where
  "find_quoted_movie [] = None"
| "find_quoted_movie (c # cs) =
     (if quote c
      then (if dropWhile (\<lambda>d. \<not> quote d) cs \<noteq> []
            then (if contains (takeWhile (\<lambda>d. \<not> quote d) cs) (cps ''watch'')
                  then Some (takeWhile (\<lambda>d. \<not> quote d) cs)
                  else find_quoted_movie cs)
            else find_quoted_movie cs)
      else find_quoted_movie cs)"

fun movie_script_url :: "pystr option list \<Rightarrow> pystr option" where
  "movie_script_url [] = None"
| "movie_script_url (None # rest) = movie_script_url rest"
| "movie_script_url (Some str # rest) =
     (if str \<noteq> []
      then (if redirects str
            then (case find_quoted_movie str of
                    Some u \<Rightarrow> Some u
                  | None \<Rightarrow> movie_script_url rest)
            else movie_script_url rest)
      else movie_script_url rest)"

definition playk8 :: pystr where
  "playk8 = cps ''https://playk8.movielinkbd.sbs''"

text \<open>The loop over the scripts is not guarded by \<open>not watch_url\<close> here.\<close>

definition movie_gate :: "gate_page \<Rightarrow> chain_result" where
  "movie_gate g =
     (let watch_url = meta_refresh_url g;
          watch_url =
            (case movie_script_url (scripts g) of
               Some u \<Rightarrow> Some u
             | None \<Rightarrow> watch_url);
          watch_url =
            (if \<not> truthy watch_url \<and> contains (resp_url g) (cps ''/watch/'')
             then Some (resp_url g) else watch_url)
      in case watch_url of
           None \<Rightarrow> Failure (cps ''Could not find actual watch URL from getWatch page'')
         | Some u \<Rightarrow>
             if u = [] then Failure (cps ''Could not find actual watch URL from getWatch page'')
             else ScrapeVideoPage (absolute playk8 u))"

subsection \<open>Order of precedence\<close>

text \<open>The first strategy, in the order given, that produced a non-empty address.\<close>

fun first_truthy :: "pystr option list \<Rightarrow> pystr option" where
  "first_truthy [] = None"
| "first_truthy (w # ws) = (if truthy w then w else first_truthy ws)"

lemma find_quoted_series_wanted:
  "find_quoted_series s = Some u \<Longrightarrow> wanted_series u"
  by (induction s) (auto split: if_splits)

lemma series_script_url_wanted:
  "series_script_url scs = Some u \<Longrightarrow> wanted_series u"
  by (induction scs rule: series_script_url.induct)
    (auto split: if_splits option.splits dest: find_quoted_series_wanted)

lemma wanted_series_nonempty: "wanted_series u \<Longrightarrow> u \<noteq> []"
  by (auto simp add: wanted_series_def split: if_splits)

lemma series_url_shape_nonempty: "series_url_shape u \<Longrightarrow> u \<noteq> []"
  by (auto simp add: series_url_shape_def split: if_splits)

lemma find_quoted_movie_watch:
  "find_quoted_movie s = Some u \<Longrightarrow> contains u (cps ''watch'')"
  by (induction s) (auto split: if_splits)

lemma movie_script_url_watch:
  "movie_script_url scs = Some u \<Longrightarrow> contains u (cps ''watch'')"
  by (induction scs rule: movie_script_url.induct)
    (auto split: if_splits option.splits dest: find_quoted_movie_watch)

lemma contains_watch_nonempty: "contains u (cps ''watch'') \<Longrightarrow> u \<noteq> []"
  by auto

lemma series_gate_first_truthy:
  "series_gate h g =
     (case first_truthy
        [meta_refresh_url g, series_script_url (scripts g),
         if series_url_shape (resp_url g) then Some (resp_url g) else None] of
        None \<Rightarrow> Failure (cps ''Could not resolve final watch URL'')
      | Some u \<Rightarrow> ScrapeVideoPage (absolute h u))"
proof (cases "truthy (meta_refresh_url g)")
  case True
  then show ?thesis
    by (auto simp add: series_gate_def truthy_def split: option.splits)
next
  case a: False
  show ?thesis
  proof (cases "series_script_url (scripts g)")
    case None
    with a show ?thesis
      using series_url_shape_nonempty [of "resp_url g"]
      by (auto simp add: series_gate_def truthy_def split: option.splits)
  next
    case (Some u)
    then have "u \<noteq> []"
      using series_script_url_wanted wanted_series_nonempty by blast
    with a Some show ?thesis
      by (simp add: series_gate_def truthy_def)
  qed
qed

lemma movie_gate_no_script:
  assumes "movie_script_url (scripts g) = None"
  shows "movie_gate g =
     (case first_truthy
        [meta_refresh_url g,
         if contains (resp_url g) (cps ''/watch/'') then Some (resp_url g) else None] of
        None \<Rightarrow> Failure (cps ''Could not find actual watch URL from getWatch page'')
      | Some u \<Rightarrow> ScrapeVideoPage (absolute playk8 u))"
  using assms
  by (cases "resp_url g = []")
    (auto simp add: movie_gate_def truthy_def split: option.splits)

lemma movie_gate_no_meta:
  assumes "\<not> truthy (meta_refresh_url g)"
  shows "movie_gate g =
     (case first_truthy
        [movie_script_url (scripts g),
         if contains (resp_url g) (cps ''/watch/'') then Some (resp_url g) else None] of
        None \<Rightarrow> Failure (cps ''Could not find actual watch URL from getWatch page'')
      | Some u \<Rightarrow> ScrapeVideoPage (absolute playk8 u))"
proof (cases "movie_script_url (scripts g)")
  case None
  with assms show ?thesis
    by (cases "resp_url g = []")
      (auto simp add: movie_gate_def truthy_def split: option.splits)
next
  case (Some u)
  then have "u \<noteq> []"
    using movie_script_url_watch contains_watch_nonempty by blast
  with Some show ?thesis
    by (simp add: movie_gate_def truthy_def)
qed

lemmas gate_eval =
  series_gate_def movie_gate_def meta_refresh_url_def truthy_def redirects_def
  wanted_series_def series_url_shape_def absolute_def quote_def playk8_def

definition episode_gate_page :: gate_page where
  "episode_gate_page =
     \<lparr>meta_refresh = None,
      scripts = [Some (cps ''window.location = \"/episode/5\";'')],
      resp_url = cps ''https://movielinkbd.shop/getWatch/9''\<rparr>"

text \<open>
  Claim C9 names both resolvers.  The movie resolver does not try the three
  strategies as the claim states them: a page whose inline script assigns
  \<open>window.location\<close> a quoted \<open>/episode/5\<close> resolves on the series path and
  fails on the movie path, which looks for \<open>watch\<close> only.
\<close>

theorem movie_gate_ignores_episode:
  "series_gate (cps ''https://movielinkbd.shop'') episode_gate_page
     = ScrapeVideoPage (cps ''https://movielinkbd.shop/episode/5'') \<and>
   movie_gate episode_gate_page
     = Failure (cps ''Could not find actual watch URL from getWatch page'')"
  by (simp add: episode_gate_page_def gate_eval)

text \<open>
  Claim C9, amended.  On the series path the final address is that of the first of
  the three strategies, in the order meta refresh, inline script, response address,
  that gives a non-empty address, and without one the chain fails with
  \<open>Could not resolve final watch URL\<close> and scrapes nothing.  On the movie path an
  inline script counts only with a quoted text that contains \<open>watch\<close>, the
  response address only with \<open>/watch/\<close>, and the failure reads
  \<open>Could not find actual watch URL from getWatch page\<close>; the same order decides
  there whenever the meta refresh gives no address or no script gives one.
\<close>

theorem gate_strategies_in_order:
  "series_gate h g =
     (case first_truthy
        [meta_refresh_url g, series_script_url (scripts g),
         if series_url_shape (resp_url g) then Some (resp_url g) else None] of
        None \<Rightarrow> Failure (cps ''Could not resolve final watch URL'')
      | Some u \<Rightarrow> ScrapeVideoPage (absolute h u)) \<and>
   (\<forall>u. series_script_url (scripts g) = Some u \<longrightarrow>
      contains u (cps ''watch'') \<or> contains u (cps ''episode'')) \<and>
   (\<forall>u. movie_script_url (scripts g) = Some u \<longrightarrow> contains u (cps ''watch'')) \<and>
   (\<not> truthy (meta_refresh_url g) \<or> movie_script_url (scripts g) = None \<longrightarrow>
    movie_gate g =
     (case first_truthy
        [meta_refresh_url g, movie_script_url (scripts g),
         if contains (resp_url g) (cps ''/watch/'') then Some (resp_url g) else None] of
        None \<Rightarrow> Failure (cps ''Could not find actual watch URL from getWatch page'')
      | Some u \<Rightarrow> ScrapeVideoPage (absolute playk8 u)))"
proof (intro conjI allI impI)
  show "series_gate h g =
     (case first_truthy
        [meta_refresh_url g, series_script_url (scripts g),
         if series_url_shape (resp_url g) then Some (resp_url g) else None] of
        None \<Rightarrow> Failure (cps ''Could not resolve final watch URL'')
      | Some u \<Rightarrow> ScrapeVideoPage (absolute h u))"
    by (rule series_gate_first_truthy)
next
  fix u
  assume "series_script_url (scripts g) = Some u"
  then have "wanted_series u" by (rule series_script_url_wanted)
  then show "contains u (cps ''watch'') \<or> contains u (cps ''episode'')"
    by (auto simp add: wanted_series_def split: if_splits)
next
  fix u
  assume "movie_script_url (scripts g) = Some u"
  then show "contains u (cps ''watch'')" by (rule movie_script_url_watch)
next
  assume "\<not> truthy (meta_refresh_url g) \<or> movie_script_url (scripts g) = None"
  then show "movie_gate g =
     (case first_truthy
        [meta_refresh_url g, movie_script_url (scripts g),
         if contains (resp_url g) (cps ''/watch/'') then Some (resp_url g) else None] of
        None \<Rightarrow> Failure (cps ''Could not find actual watch URL from getWatch page'')
      | Some u \<Rightarrow> ScrapeVideoPage (absolute playk8 u))"
  proof
    assume a: "\<not> truthy (meta_refresh_url g)"
    then show ?thesis by (simp add: movie_gate_no_meta)
  next
    assume b: "movie_script_url (scripts g) = None"
    then show ?thesis by (simp add: movie_gate_no_script truthy_def)
  qed
qed

definition watch_gate_page :: gate_page where
  "watch_gate_page =
     \<lparr>meta_refresh = Some (cps ''0;URL=/watch/a''),
      scripts = [None, Some (cps ''location.href = '' @ [39] @ cps ''/watch/b'' @ [39])],
      resp_url = cps ''https://movielinkbd.shop/watch/c''\<rparr>"

theorem gate_strategies_witness:
  "\<not> truthy (meta_refresh_url watch_gate_page) \<and>
   series_script_url (scripts watch_gate_page) = Some (cps ''/watch/b'') \<and>
   movie_script_url (scripts watch_gate_page) = Some (cps ''/watch/b'') \<and>
   series_gate (cps ''https://movielinkbd.shop'') watch_gate_page
     = ScrapeVideoPage (cps ''https://movielinkbd.shop/watch/b'') \<and>
   movie_gate watch_gate_page
     = ScrapeVideoPage (cps ''https://playk8.movielinkbd.sbs/watch/b'')"
  using gate_strategies_in_order [of "cps ''https://movielinkbd.shop''" watch_gate_page]
  by (simp add: watch_gate_page_def meta_refresh_url_def truthy_def redirects_def
      wanted_series_def quote_def absolute_def playk8_def series_url_shape_def)

section \<open>Similarity of two normalized titles\<close>

subsection \<open>difflib.SequenceMatcher(None, a, b).ratio()\<close>

text \<open>
  \<open>resolve_tmdb_tv_to_mlbd_url\<close> scores with the standard library's
  \<open>SequenceMatcher\<close>, called without a junk predicate and with the automatic
  junk heuristic left on.  \<open>b2j\<close> maps a character of \<open>b\<close> to its positions,
  except the \<open>popular\<close> ones: when \<open>b\<close> has 200 characters or more, those
  that occur more than \<open>len(b) // 100 + 1\<close> times.

  \<open>find_longest_match\<close> fills, for each \<open>i\<close> in \<open>range(alo, ahi)\<close>, the
  dict \<open>newj2len\<close>: here a row with one entry for each position of \<open>b\<close>,
  \<open>0\<close> where the dict has no key.  \<open>diag\<close> is the entry of the row before at
  \<open>j - 1\<close>.  The best block is replaced only by a longer one, rows and positions
  in ascending order.  The block is then extended over equal characters on both
  sides (with no junk, the two loops over junk never run).
\<close>

definition popular :: "pystr \<Rightarrow> nat \<Rightarrow> bool" where
  "popular b c = (if 200 \<le> length b then length b div 100 + 1 < count_list b c else False)"

text \<open>A matching block \<open>(i, j, k)\<close>: \<open>a[i:i+k] == b[j:j+k]\<close>.\<close>

type_synonym block = "nat \<times> nat \<times> nat"

fun new_row :: "nat \<Rightarrow> nat \<Rightarrow> nat \<Rightarrow> nat \<Rightarrow> nat \<Rightarrow> pystr \<Rightarrow> nat list \<Rightarrow> nat list" where
  "new_row ai blo bhi j diag [] prev = []"
| "new_row ai blo bhi j diag (bj # bs) prev =
     (if bj = ai then (if blo \<le> j then (if j < bhi then Suc diag else 0) else 0) else 0)
       # new_row ai blo bhi (Suc j) (case prev of [] \<Rightarrow> 0 | p # ps \<Rightarrow> p) bs (tl prev)"

fun best_in_row :: "nat \<Rightarrow> nat \<Rightarrow> nat list \<Rightarrow> block \<Rightarrow> block" where
  "best_in_row i j [] best = best"
| "best_in_row i j (k # ks) (besti, bestj, bestsize) =
     best_in_row i (Suc j) ks
       (if bestsize < k then (Suc i - k, Suc j - k, k) else (besti, bestj, bestsize))"

fun longest_rows :: "pystr \<Rightarrow> nat \<Rightarrow> nat \<Rightarrow> nat \<Rightarrow> pystr \<Rightarrow> nat list \<Rightarrow> block \<Rightarrow> block" where
  "longest_rows b blo bhi i [] j2len best = best"
| "longest_rows b blo bhi i (ai # as) j2len best =
     longest_rows b blo bhi (Suc i) as
       (if popular b ai then replicate (length b) 0 else new_row ai blo bhi 0 0 b j2len)
       (best_in_row i 0
          (if popular b ai then replicate (length b) 0 else new_row ai blo bhi 0 0 b j2len)
          best)"

fun extend_left :: "pystr \<Rightarrow> pystr \<Rightarrow> nat \<Rightarrow> nat \<Rightarrow> block \<Rightarrow> block" where
  "extend_left a b alo blo (besti, bestj, bestsize) =
     (if alo < besti \<and> blo < bestj \<and> a ! (besti - 1) = b ! (bestj - 1)
      then extend_left a b alo blo (besti - 1, bestj - 1, Suc bestsize)
      else (besti, bestj, bestsize))"

function extend_right :: "pystr \<Rightarrow> pystr \<Rightarrow> nat \<Rightarrow> nat \<Rightarrow> block \<Rightarrow> block" where
  "extend_right a b ahi bhi (besti, bestj, bestsize) =
     (if besti + bestsize < ahi \<and> bestj + bestsize < bhi \<and>
         a ! (besti + bestsize) = b ! (bestj + bestsize)
      then extend_right a b ahi bhi (besti, bestj, Suc bestsize)
      else (besti, bestj, bestsize))"
  by pat_completeness auto
termination
  by (relation "measure (\<lambda>(a, b, ahi, bhi, besti, bestj, bestsize). ahi - (besti + bestsize))") auto

declare extend_left.simps [simp del] extend_right.simps [simp del]

definition find_longest_match :: "pystr \<Rightarrow> pystr \<Rightarrow> nat \<Rightarrow> nat \<Rightarrow> nat \<Rightarrow> nat \<Rightarrow> block" where
  "find_longest_match a b alo ahi blo bhi =
     extend_right a b ahi bhi (extend_left a b alo blo
       (longest_rows b blo bhi alo (take (ahi - alo) (drop alo a))
          (replicate (length b) 0) (alo, blo, 0)))"


subsection \<open>A block found lies inside the range searched\<close>

lemma new_row_bound:
  "\<forall>x\<in>set prev. x \<le> n \<Longrightarrow> diag \<le> n \<Longrightarrow>
   \<forall>x\<in>set (new_row ai blo bhi j diag bs prev). x \<le> Suc n"
proof (induction bs arbitrary: j diag prev)
  case Nil
  then show ?case by simp
next
  case (Cons bj bs)
  have "\<forall>x\<in>set (tl prev). x \<le> n"
    using Cons.prems(1) by (cases prev) auto
  moreover have "(case prev of [] \<Rightarrow> 0 | p # ps \<Rightarrow> p) \<le> n"
    using Cons.prems(1) by (cases prev) auto
  ultimately have "\<forall>x\<in>set (new_row ai blo bhi (Suc j)
      (case prev of [] \<Rightarrow> 0 | p # ps \<Rightarrow> p) bs (tl prev)). x \<le> Suc n"
    by (rule Cons.IH)
  then show ?case using Cons.prems(2) by simp
qed

definition block_ok :: "nat \<Rightarrow> nat \<Rightarrow> block \<Rightarrow> bool" where
  "block_ok alo ahi x =
     (case x of (i, j, k) \<Rightarrow> (k = 0 \<and> i = alo) \<or> (alo \<le> i \<and> i + k \<le> ahi))"

lemma best_in_row_ok:
  "\<forall>k\<in>set ks. k \<le> Suc i - alo \<Longrightarrow> alo \<le> i \<Longrightarrow> block_ok alo (Suc i) best \<Longrightarrow>
   block_ok alo (Suc i) (best_in_row i j ks best)"
proof (induction ks arbitrary: j best)
  case Nil
  then show ?case by simp
next
  case (Cons k ks)
  obtain besti bestj bestsize where b: "best = (besti, bestj, bestsize)"
    by (cases best) auto
  have "block_ok alo (Suc i)
      (if bestsize < k then (Suc i - k, Suc j - k, k) else (besti, bestj, bestsize))"
    using Cons.prems b by (auto simp add: block_ok_def)
  then show ?case using Cons b by simp
qed

lemma block_ok_mono: "block_ok alo i x \<Longrightarrow> i \<le> i' \<Longrightarrow> block_ok alo i' x"
  by (auto simp add: block_ok_def)

lemma longest_rows_ok:
  "\<forall>x\<in>set j2len. x \<le> i - alo \<Longrightarrow> alo \<le> i \<Longrightarrow> block_ok alo i best \<Longrightarrow>
   block_ok alo (i + length as) (longest_rows b blo bhi i as j2len best)"
proof (induction as arbitrary: i j2len best)
  case Nil
  then show ?case by simp
next
  case (Cons ai as)
  define row where
    "row = (if popular b ai then replicate (length b) 0 else new_row ai blo bhi 0 0 b j2len)"
  have r: "\<forall>x\<in>set row. x \<le> Suc i - alo"
  proof (cases "popular b ai")
    case True
    then show ?thesis by (simp add: row_def)
  next
    case False
    have "\<forall>x\<in>set (new_row ai blo bhi 0 0 b j2len). x \<le> Suc (i - alo)"
      using Cons.prems(1) by (intro new_row_bound) auto
    then show ?thesis using False Cons.prems(2) by (simp add: row_def Suc_diff_le)
  qed
  have "block_ok alo (Suc i) best"
    using Cons.prems(3) by (rule block_ok_mono) simp
  with r Cons.prems(2) have "block_ok alo (Suc i) (best_in_row i 0 row best)"
    by (intro best_in_row_ok)
  with r have "block_ok alo (Suc i + length as)
      (longest_rows b blo bhi (Suc i) as row (best_in_row i 0 row best))"
    using Cons.prems(2) by (intro Cons.IH) auto
  then show ?case by (simp add: row_def)
qed

lemma extend_left_ok:
  "block_ok alo ahi x \<Longrightarrow> block_ok alo ahi (extend_left a b alo blo x)"
proof (induction a b alo blo x rule: extend_left.induct)
  case (1 a b alo blo besti bestj bestsize)
  show ?case
  proof (cases "alo < besti \<and> blo < bestj \<and> a ! (besti - 1) = b ! (bestj - 1)")
    case True
    with "1.prems" have "block_ok alo ahi (besti - 1, bestj - 1, Suc bestsize)"
      by (auto simp add: block_ok_def)
    with True have "block_ok alo ahi
        (extend_left a b alo blo (besti - 1, bestj - 1, Suc bestsize))"
      by (rule "1.IH")
    moreover have "extend_left a b alo blo (besti, bestj, bestsize)
        = extend_left a b alo blo (besti - 1, bestj - 1, Suc bestsize)"
      using True by (subst extend_left.simps) simp
    ultimately show ?thesis by simp
  next
    case False
    have "extend_left a b alo blo (besti, bestj, bestsize) = (besti, bestj, bestsize)"
      using False by (subst extend_left.simps) auto
    with "1.prems" show ?thesis by simp
  qed
qed

lemma extend_right_ok:
  "block_ok alo ahi x \<Longrightarrow> block_ok alo ahi (extend_right a b ahi bhi x)"
proof (induction a b ahi bhi x rule: extend_right.induct)
  case (1 a b ahi bhi besti bestj bestsize)
  show ?case
  proof (cases "besti + bestsize < ahi \<and> bestj + bestsize < bhi \<and>
         a ! (besti + bestsize) = b ! (bestj + bestsize)")
    case True
    with "1.prems" have "block_ok alo ahi (besti, bestj, Suc bestsize)"
      by (auto simp add: block_ok_def)
    with True have "block_ok alo ahi (extend_right a b ahi bhi (besti, bestj, Suc bestsize))"
      by (rule "1.IH")
    moreover have "extend_right a b ahi bhi (besti, bestj, bestsize)
        = extend_right a b ahi bhi (besti, bestj, Suc bestsize)"
      using True by (subst extend_right.simps) simp
    ultimately show ?thesis by simp
  next
    case False
    have "extend_right a b ahi bhi (besti, bestj, bestsize) = (besti, bestj, bestsize)"
      using False by (subst extend_right.simps) auto
    with "1.prems" show ?thesis by simp
  qed
qed

lemma find_longest_match_ok: "block_ok alo ahi (find_longest_match a b alo ahi blo bhi)"
proof -
  let ?as = "take (ahi - alo) (drop alo a)"
  have "block_ok alo (alo + length ?as)
      (longest_rows b blo bhi alo ?as (replicate (length b) 0) (alo, blo, 0))"
    by (intro longest_rows_ok) (auto simp add: block_ok_def)
  moreover have "block_ok alo ahi (alo, blo, 0)" by (simp add: block_ok_def)
  ultimately have "block_ok alo ahi
      (longest_rows b blo bhi alo ?as (replicate (length b) 0) (alo, blo, 0))"
    by (cases "alo \<le> ahi") (auto elim: block_ok_mono)
  then show ?thesis
    unfolding find_longest_match_def by (intro extend_right_ok extend_left_ok)
qed

lemma find_longest_match_range:
  assumes "find_longest_match a b alo ahi blo bhi = (i, j, k)" and "k \<noteq> 0"
  shows "alo \<le> i" and "i + k \<le> ahi"
  using find_longest_match_ok [of alo ahi a b blo bhi] assms
  by (auto simp add: block_ok_def)

text \<open>
  \<open>get_matching_blocks\<close> works through a queue of ranges; \<open>ratio\<close> needs the
  sum of the block lengths only, which does not depend on the order.
\<close>

function matches :: "pystr \<Rightarrow> pystr \<Rightarrow> nat \<Rightarrow> nat \<Rightarrow> nat \<Rightarrow> nat \<Rightarrow> nat" where
  "matches a b alo ahi blo bhi =
     (case find_longest_match a b alo ahi blo bhi of
        (i, j, k) \<Rightarrow>
          if k = 0 then 0
          else k + (if alo < i \<and> blo < j then matches a b alo i blo j else 0)
                 + (if i + k < ahi \<and> j + k < bhi then matches a b (i + k) ahi (j + k) bhi
                    else 0))"
  by pat_completeness auto
termination
proof (relation "measure (\<lambda>(a, b, alo, ahi, blo, bhi). ahi - alo)")
  show "wf (measure (\<lambda>(a, b, alo, ahi, blo, bhi). ahi - alo))" by simp
next
  fix a b :: pystr and alo ahi blo bhi i y j k
  assume m: "(i, y) = find_longest_match a b alo ahi blo bhi" "(j, k) = y"
    and k: "k \<noteq> 0" and "alo < i \<and> blo < j"
  then have "alo < i" by simp
  moreover from m have "find_longest_match a b alo ahi blo bhi = (i, j, k)" by simp
  then have "i + k \<le> ahi" using k by (rule find_longest_match_range)
  ultimately have "i - alo < ahi - alo" using k by linarith
  then show "((a, b, alo, i, blo, j), (a, b, alo, ahi, blo, bhi))
      \<in> measure (\<lambda>(a, b, alo, ahi, blo, bhi). ahi - alo)"
    by simp
next
  fix a b :: pystr and alo ahi blo bhi i y j k
  assume m: "(i, y) = find_longest_match a b alo ahi blo bhi" "(j, k) = y"
    and k: "k \<noteq> 0" and "i + k < ahi \<and> j + k < bhi"
  then have "i + k < ahi" by simp
  moreover from m have "find_longest_match a b alo ahi blo bhi = (i, j, k)" by simp
  then have "alo \<le> i" using k by (rule find_longest_match_range)
  ultimately have "ahi - (i + k) < ahi - alo" using k by linarith
  then show "((a, b, i + k, ahi, j + k, bhi), (a, b, alo, ahi, blo, bhi))
      \<in> measure (\<lambda>(a, b, alo, ahi, blo, bhi). ahi - alo)"
    by simp
qed

declare matches.simps [simp del]

text \<open>\<open>_calculate_ratio(matches, len(a) + len(b))\<close>\<close>

definition seq_ratio :: "pystr \<Rightarrow> pystr \<Rightarrow> real" where
  "seq_ratio a b =
     (if length a + length b = 0 then 1
      else 2 * real (matches a b 0 (length a) 0 (length b)) / real (length a + length b))"

lemma seq_ratio_at:
  "length a = la \<Longrightarrow> length b = lb \<Longrightarrow>
   seq_ratio a b = (if la + lb = 0 then 1 else 2 * real (matches a b 0 la 0 lb) / real (la + lb))"
  by (simp add: seq_ratio_def)

lemmas difflib_eval =
  find_longest_match_def popular_def extend_left.simps extend_right.simps

subsection \<open>score_similarity (analyze_tv_mapping.py, lines 74--83)\<close>

definition score_similarity :: "unicode \<Rightarrow> pystr \<Rightarrow> pystr \<Rightarrow> real" where
  "score_similarity U a b =
     (let a_t = filter (\<lambda>t. t \<noteq> []) (py_split U a);
          b_t = filter (\<lambda>t. t \<noteq> []) (py_split U b)
      in if a_t = [] \<or> b_t = [] then 0
         else (let inter = card (set a_t \<inter> set b_t);
                   union = card (set a_t \<union> set b_t)
               in if union \<noteq> 0 then real inter / real union else 0))"

subsection \<open>The base score\<close>

text \<open>analyze_tv_mapping.py, lines 201--204.\<close>

definition analyze_base_score :: "unicode \<Rightarrow> pystr \<Rightarrow> pystr \<Rightarrow> real" where
  "analyze_base_score U title name =
     (let nml = normalize_title U title;
          score_full = score_similarity U nml (normalize_title U name);
          score_base = score_similarity U nml (normalize_title U (base_title U name))
      in max score_full score_base)"

text \<open>movielinkbd_api.py, lines 586--590.\<close>

definition base_score :: "unicode \<Rightarrow> pystr \<Rightarrow> pystr \<Rightarrow> pystr \<Rightarrow> real" where
  "base_score U norm_tmdb_full norm_tmdb_base mlbd_title =
     (let norm_mlbd = normalize_title U mlbd_title;
          score_full = seq_ratio norm_mlbd norm_tmdb_full;
          score_base = seq_ratio norm_mlbd norm_tmdb_base
      in max score_full score_base)"

subsection \<open>The token-set overlap ratio of the specification\<close>

text \<open>
  Intersection size divided by union size of the two token sets; two titles without
  a token have no ratio, and the division gives \<open>0\<close> there.
\<close>

definition token_set :: "unicode \<Rightarrow> pystr \<Rightarrow> pystr set" where
  "token_set U s = set (py_split U s)"

definition overlap_ratio :: "pystr set \<Rightarrow> pystr set \<Rightarrow> real" where
  "overlap_ratio A B = real (card (A \<inter> B)) / real (card (A \<union> B))"

lemma split_ws_tokens: "[] \<notin> set (split_ws U tok s)"
  by (induction s arbitrary: tok) auto

lemma py_split_filter: "filter (\<lambda>t. t \<noteq> []) (py_split U s) = py_split U s"
  using split_ws_tokens [of U "[]" s] by (simp add: py_split_def filter_id_conv) metis

lemma score_similarity_overlap:
  "score_similarity U a b = overlap_ratio (token_set U a) (token_set U b)"
  by (auto simp add: score_similarity_def py_split_filter overlap_ratio_def token_set_def Let_def)

lemma card_inter_lists: "card (set xs \<inter> set ys) = length (remdups (filter (\<lambda>x. x \<in> set ys) xs))"
proof -
  have "set xs \<inter> set ys = set (filter (\<lambda>x. x \<in> set ys) xs)" by auto
  then show ?thesis by (simp only: List.card_set)
qed

lemma card_union_lists: "card (set xs \<union> set ys) = length (remdups (xs @ ys))"
proof -
  have "set xs \<union> set ys = set (xs @ ys)" by simp
  then show ?thesis by (simp only: List.card_set)
qed

subsection \<open>The two base scores\<close>

lemma normalize_ascii_dark_plain: "normalize_title ascii_only (cps ''Dark'') = cps ''dark''"
  by (simp add: normalize_eval)

lemma base_title_ascii_dark: "base_title ascii_only (cps ''Dark'') = cps ''Dark''"
  by (simp add: base_title_def class_eval string_eval)

lemma normalize_ascii_dark_sun:
  "normalize_title ascii_only (cps ''Dark Sun'') = cps ''dark sun''"
  by (simp add: normalize_eval)

lemma longest_dark_sun:
  "find_longest_match (cps ''dark sun'') (cps ''dark'') 0 8 0 4 = (0, 0, 4)"
  by (simp add: difflib_eval)

lemma matches_dark_sun: "matches (cps ''dark sun'') (cps ''dark'') 0 8 0 4 = 4"
  by (subst matches.simps) (simp add: longest_dark_sun [simplified])

lemma seq_ratio_dark_sun: "seq_ratio (cps ''dark sun'') (cps ''dark'') = 2 / 3"
  by (subst seq_ratio_at [of _ 8 _ 4]) (simp_all add: matches_dark_sun [simplified])

lemma overlap_dark_sun:
  "overlap_ratio (token_set ascii_only (cps ''dark sun'')) (token_set ascii_only (cps ''dark''))
     = 1 / 2"
  by (simp add: overlap_ratio_def token_set_def card_inter_lists card_union_lists
      class_eval string_eval)

text \<open>
  Claim C1 says that the base score of the series resolution is the larger of two
  token-set overlap ratios.  In \<open>resolve_tmdb_tv_to_mlbd_url\<close> it is not: for the
  card title \<open>Dark Sun\<close> and the reference title \<open>Dark\<close> the code computes
  \<open>2 * 4 / 12\<close> from the four matching characters, where the overlap of the
  token sets is one token of two.
\<close>

theorem api_base_score_not_overlap:
  "base_score ascii_only (normalize_title ascii_only (cps ''Dark''))
       (normalize_title ascii_only (base_title ascii_only (cps ''Dark''))) (cps ''Dark Sun'')
     = 2 / 3 \<and>
   max (overlap_ratio (token_set ascii_only (normalize_title ascii_only (cps ''Dark Sun'')))
          (token_set ascii_only (normalize_title ascii_only (cps ''Dark''))))
       (overlap_ratio (token_set ascii_only (normalize_title ascii_only (cps ''Dark Sun'')))
          (token_set ascii_only
             (normalize_title ascii_only (base_title ascii_only (cps ''Dark'')))))
     = 1 / 2"
  unfolding base_score_def base_title_ascii_dark normalize_ascii_dark_plain
    normalize_ascii_dark_sun Let_def seq_ratio_dark_sun overlap_dark_sun
  by simp

text \<open>
  Claim C1, amended.  The base score is the larger of two similarities of the
  card's normalized title, one to the normalized full title and one to the normalized
  base title of the reference.  In analyze_tv_mapping.py the similarity is the
  token-set overlap ratio; in \<open>resolve_tmdb_tv_to_mlbd_url\<close> it is the ratio of
  \<open>difflib.SequenceMatcher\<close> over the characters.
\<close>

theorem base_score_of_each_path:
  "analyze_base_score U title name =
     max (overlap_ratio (token_set U (normalize_title U title))
            (token_set U (normalize_title U name)))
         (overlap_ratio (token_set U (normalize_title U title))
            (token_set U (normalize_title U (base_title U name)))) \<and>
   base_score U (normalize_title U name) (normalize_title U (base_title U name)) title =
     max (seq_ratio (normalize_title U title) (normalize_title U name))
         (seq_ratio (normalize_title U title) (normalize_title U (base_title U name)))"
  by (simp add: analyze_base_score_def base_score_def score_similarity_overlap Let_def)

section \<open>Scoring a search card (movielinkbd_api.py, lines 592--636)\<close>

subsection \<open>Patterns searched in the lower-case title\<close>

text \<open>
  \<open>re.search\<close> for a pattern that starts with \<open>\b\<close> and matches no empty
  string: the first position, from the left, with a word boundary before it where
  \<open>here\<close> matches.
\<close>

fun search_b :: "unicode \<Rightarrow> (pystr \<Rightarrow> bool) \<Rightarrow> nat option \<Rightarrow> pystr \<Rightarrow> bool" where
  "search_b U here prev [] = False"
| "search_b U here prev (c # cs) =
     (if word_boundary U prev (Some c)
      then (if here (c # cs) then True else search_b U here (Some c) cs)
      else search_b U here (Some c) cs)"

text \<open>
  \<open>\d+\s*[-\<dots>]\s*\d+\b\<close>, the class holding the hyphen (45) and the en dash
  (8211).  Giving back a digit or a space never helps here either.
\<close>

definition range_here :: "unicode \<Rightarrow> pystr \<Rightarrow> bool" where
  "range_here U s =
     (case s of
        [] \<Rightarrow> False
      | c # cs \<Rightarrow>
          if is_digit U c
          then (case dropWhile (is_space U) (dropWhile (is_digit U) cs) of
                  [] \<Rightarrow> False
                | d # ds \<Rightarrow>
                    if d = 45 \<or> d = 8211
                    then digits_boundary U (dropWhile (is_space U) ds) \<noteq> None
                    else False)
          else False)"

text \<open>\<open>s\s*\d+\b\<close>\<close>

definition s_block_here :: "unicode \<Rightarrow> pystr \<Rightarrow> bool" where
  "s_block_here U s =
     (case s of
        [] \<Rightarrow> False
      | c # cs \<Rightarrow>
          if c = 115 then digits_boundary U (dropWhile (is_space U) cs) \<noteq> None
          else False)"

definition has_episode_batch :: "unicode \<Rightarrow> pystr \<Rightarrow> bool" where
  "has_episode_batch U title_lower =
     (if contains title_lower (cps ''episode'')
      then search_b U (range_here U) None title_lower else False)"

definition has_season_block :: "unicode \<Rightarrow> pystr \<Rightarrow> bool" where
  "has_season_block U title_lower =
     (if contains title_lower (cps ''season'') then True
      else search_b U (s_block_here U) None title_lower)"

definition is_bangla_dubbed :: "pystr \<Rightarrow> bool" where
  "is_bangla_dubbed title_lower =
     (if contains title_lower (cps ''bangla'') then True
      else contains title_lower bangla_native)"

text \<open>
  \<open>re.search(r'(?:season\s*|s\s*)(\d+)', title_lower)\<close>: the group of the
  leftmost match, first alternative first.
\<close>

definition ws_digits :: "unicode \<Rightarrow> pystr \<Rightarrow> pystr option" where
  "ws_digits U s =
     (case dropWhile (is_space U) s of
        [] \<Rightarrow> None
      | c # cs \<Rightarrow> if is_digit U c then Some (c # takeWhile (is_digit U) cs) else None)"

fun find_season :: "unicode \<Rightarrow> pystr \<Rightarrow> pystr option" where
  "find_season U [] = None"
| "find_season U (c # cs) =
     (case (if startswith (c # cs) (cps ''season'') then ws_digits U (drop 6 (c # cs))
            else None) of
        Some ds \<Rightarrow> Some ds
      | None \<Rightarrow>
          (case (if c = 115 then ws_digits U cs else None) of
             Some ds \<Rightarrow> Some ds
           | None \<Rightarrow> find_season U cs))"

text \<open>
  \<open>int(...)\<close> of a run of decimal digits.  (An interpreter configured with a limit
  on the number of digits raises beyond it; the limit is not part of the model.)
\<close>

definition py_int :: "unicode \<Rightarrow> pystr \<Rightarrow> int" where
  "py_int U ds = int (foldl (\<lambda>n d. 10 * n + digit_value U d) 0 ds)"

subsection \<open>The adjustments\<close>

text \<open>
  The statements from \<open>title_lower = mlbd_title.lower()\<close> to
  \<open>score -= season_penalty\<close>, in the order of the source; \<open>score0\<close> is
  \<open>max(score_full, score_base)\<close>.
\<close>

definition adjust_score :: "unicode \<Rightarrow> int \<Rightarrow> bool \<Rightarrow> pystr \<Rightarrow> real \<Rightarrow> real" where
  "adjust_score U season is_series_type mlbd_title score0 =
     (let title_lower = py_lower U mlbd_title;
          episode_batch = has_episode_batch U title_lower;
          season_block = has_season_block U title_lower;
          (score, season_match, season_penalty) =
            (if season_block
             then (case find_season U title_lower of
                     Some ds \<Rightarrow>
                       if py_int U ds = season then (score0 + 0.15, True, 0)
                       else (score0, False, 0.2)
                   | None \<Rightarrow> (score0 + 0.05, False, 0))
             else (if season = 1 \<and> is_bangla_dubbed title_lower then (score0 + 0.1, False, 0)
                   else (score0 + 0.02, False, 0)));
          score = (if is_series_type then score + 0.05 else score);
          score = (if season_block \<and> \<not> season_match then score + 0.03 else score);
          score = (if episode_batch then score - 0.07 else score)
      in score - season_penalty)"

text \<open>
  \<open>is_series_type\<close>: the text of the card's \<open>span.type\<close>, when there is one,
  decides; otherwise the link does.
\<close>

definition is_series_type :: "unicode \<Rightarrow> pystr option \<Rightarrow> pystr \<Rightarrow> bool" where
  "is_series_type U type_span href =
     (case type_span of
        Some t \<Rightarrow> py_lower U t = cps ''series''
      | None \<Rightarrow> contains href (cps ''/series/''))"

lemmas score_eval =
  adjust_score_def has_episode_batch_def has_season_block_def is_bangla_dubbed_def
  range_here_def s_block_here_def ws_digits_def py_int_def is_series_type_def
  digits_boundary_def bangla_native_def class_eval string_eval


lemma adjust_score_breaking_bad:
  "adjust_score ascii_only 1 True (cps ''Breaking Bad Season 1'') 1 = 1.2"
  by (simp add: score_eval)

lemma adjust_score_wrong_season:
  "adjust_score ascii_only 1 True (cps ''Dark S02'') 1 = 0.88"
  by (simp add: score_eval)

lemma adjust_score_batch:
  "adjust_score ascii_only 2 False (cps ''Dark Episode 1-8'') 1 = 0.95"
  by (simp add: score_eval)

section \<open>Resolving a series (resolve_tmdb_tv_to_mlbd_url, lines 502--679)\<close>

subsection \<open>Cards, candidates and mirrors\<close>

text \<open>
  What the resolver reads from one \<open>div.movie-card\<close> of a search page: the
  \<open>href\<close> and the stripped text of its \<open>a.title\<close> (\<open>None\<close> without such a
  link), and the stripped text of its \<open>span.type\<close>.
\<close>

record card =
  anchor :: "(pystr \<times> pystr) option"
  type_span :: "pystr option"

text \<open>
  The entries of a candidate dict that decide anything; \<open>season_match\<close> and
  \<open>found_season\<close> are only printed.
\<close>

record candidate =
  c_href :: pystr
  c_score :: real
  c_is_series :: bool
  c_title :: pystr

text \<open>
  One \<open>session.get\<close>: it raises, or it answers with a status code and a page,
  given here by its cards in document order.
\<close>

datatype response = Raised | Status nat "card list"

type_synonym fetch = "pystr \<Rightarrow> pystr \<Rightarrow> response"

definition search_hosts :: "pystr list" where
  "search_hosts = [cps ''https://moviexp.movielinkbd.sbs'', cps ''https://movielinkbd.shop'']"

definition score_card ::
  "unicode \<Rightarrow> pystr \<Rightarrow> pystr \<Rightarrow> int \<Rightarrow> pystr \<Rightarrow> pystr \<Rightarrow> pystr \<Rightarrow> pystr option \<Rightarrow> candidate" where
  "score_card U norm_tmdb_full norm_tmdb_base season host href mlbd_title tspan =
     (let score = base_score U norm_tmdb_full norm_tmdb_base mlbd_title;
          series_type = is_series_type U tspan href;
          score = adjust_score U season series_type mlbd_title score
      in \<lparr>c_href = absolute host href, c_score = score,
          c_is_series = (if contains href (cps ''/series/'') then True else series_type),
          c_title = mlbd_title\<rparr>)"


text \<open>
  \<open>candidates.sort(key=lambda c: (not c['is_series'], -c['score']))\<close>: ascending in
  the key, stable.
\<close>

definition rank :: "candidate \<Rightarrow> bool \<times> real" where
  "rank c = (\<not> c_is_series c, - c_score c)"

text \<open>The condition under which \<open>best\<close> becomes \<open>best_overall\<close> (line 663).\<close>

definition replaces :: "candidate \<Rightarrow> candidate option \<Rightarrow> bool" where
  "replaces best overall =
     (case overall of
        None \<Rightarrow> True
      | Some bo \<Rightarrow>
          (if c_is_series best \<and> \<not> c_is_series bo then True else c_score bo < c_score best))"

subsection \<open>The loops\<close>

text \<open>
  The local variables that live across iterations.  \<open>soup\<close> and \<open>candidates\<close>
  are unbound until a mirror has answered with status 200.  \<open>requests\<close> and
  \<open>n_scored\<close> are not variables of the source: they record the requests sent,
  in order, and count the candidates appended.
\<close>

record scan =
  soup :: "card list option"
  candidates :: "candidate list"
  best_overall :: "candidate option"
  requests :: "(pystr \<times> pystr) list"
  n_scored :: nat

definition scan0 :: scan where
  "scan0 = \<lparr>soup = None, candidates = [], best_overall = None, requests = [], n_scored = 0\<rparr>"

text \<open>Lines 562--576: the loop over the mirrors holds nothing but the request.\<close>

fun host_loop :: "fetch \<Rightarrow> pystr \<Rightarrow> pystr list \<Rightarrow> scan \<Rightarrow> scan" where
  "host_loop fetch query [] st = st"
| "host_loop fetch query (host # hosts) st =
     (case fetch host query of
        Raised \<Rightarrow>
          host_loop fetch query hosts (st\<lparr>requests := requests st @ [(host, query)]\<rparr>)
      | Status code cards \<Rightarrow>
          if code \<noteq> 200
          then host_loop fetch query hosts (st\<lparr>requests := requests st @ [(host, query)]\<rparr>)
          else host_loop fetch query hosts
                 (st\<lparr>requests := requests st @ [(host, query)],
                     soup := Some cards, candidates := []\<rparr>))"

text \<open>
  Lines 578--664: the loop over the cards, which stands behind the loop over the
  mirrors and holds the ranking, the immediate acceptance and the update of
  \<open>best_overall\<close>.  \<open>Some h\<close> is \<open>return h\<close>.
\<close>

fun card_loop ::
  "unicode \<Rightarrow> pystr \<Rightarrow> pystr \<Rightarrow> int \<Rightarrow> pystr \<Rightarrow> card list \<Rightarrow> scan \<Rightarrow> pystr option \<times> scan" where
  "card_loop U nf nb season host [] st = (None, st)"
| "card_loop U nf nb season host (cd # cards) st =
     (case anchor cd of
        None \<Rightarrow> card_loop U nf nb season host cards st
      | Some (href, mlbd_title) \<Rightarrow>
          if href = [] then card_loop U nf nb season host cards st
          else (case sort_key rank
                       (candidates st @
                          [score_card U nf nb season host href mlbd_title (type_span cd)]) of
                  [] \<Rightarrow> card_loop U nf nb season host cards st
                | best # rest \<Rightarrow>
                    if c_is_series best \<and> 0.65 \<le> c_score best
                    then (Some (c_href best),
                          st\<lparr>candidates := best # rest, n_scored := Suc (n_scored st)\<rparr>)
                    else card_loop U nf nb season host cards
                           (st\<lparr>candidates := best # rest, n_scored := Suc (n_scored st),
                               best_overall :=
                                 (if replaces best (best_overall st) then Some best
                                  else best_overall st)\<rparr>)))"

text \<open>
  How the function ends: without a title, in the handler of the outer \<open>try\<close>
  (the cards of a \<open>soup\<close> that was never bound), by immediate acceptance, or behind
  the loops.  \<open>LowScore\<close> is the exit that prints the low score warning.
\<close>

datatype verdict =
  NoTitle | Crashed | Immediate pystr | NoCandidate | LowScore pystr | Final pystr

fun returned :: "verdict \<Rightarrow> pystr option" where
  "returned NoTitle = None"
| "returned Crashed = None"
| "returned (Immediate h) = Some h"
| "returned NoCandidate = None"
| "returned (LowScore h) = Some h"
| "returned (Final h) = Some h"

text \<open>
  Lines 560--676.  After the loop over the mirrors \<open>host\<close> is the last mirror,
  whichever mirror the page came from.
\<close>

fun query_loop ::
  "unicode \<Rightarrow> fetch \<Rightarrow> pystr \<Rightarrow> pystr \<Rightarrow> int \<Rightarrow> pystr list \<Rightarrow> scan \<Rightarrow> verdict \<times> scan" where
  "query_loop U fetch nf nb season [] st =
     (case best_overall st of
        None \<Rightarrow> (NoCandidate, st)
      | Some bo \<Rightarrow>
          if c_score bo < 0.50 then (LowScore (c_href bo), st) else (Final (c_href bo), st))"
| "query_loop U fetch nf nb season (query # queries) st =
     (case soup (host_loop fetch query search_hosts st) of
        None \<Rightarrow> (Crashed, host_loop fetch query search_hosts st)
      | Some cards \<Rightarrow>
          (case card_loop U nf nb season (last search_hosts) cards
                  (host_loop fetch query search_hosts st) of
             (Some h, st') \<Rightarrow> (Immediate h, st')
           | (None, st') \<Rightarrow> query_loop U fetch nf nb season queries st'))"

text \<open>\<open>tmdb_title\<close> is the stripped name that TMDB gives.\<close>

definition resolve_tv :: "unicode \<Rightarrow> fetch \<Rightarrow> pystr \<Rightarrow> int \<Rightarrow> verdict \<times> scan" where
  "resolve_tv U fetch tmdb_title season =
     (if tmdb_title = [] then (NoTitle, scan0)
      else query_loop U fetch (normalize_title U tmdb_title)
             (normalize_title U (base_title U tmdb_title)) season
             (query_variants U tmdb_title) scan0)"

subsection \<open>A candidate that was scored\<close>








subsection \<open>Runs on given mirrors\<close>

lemma last_search_hosts: "last search_hosts = cps ''https://movielinkbd.shop''"
  by (simp add: search_hosts_def)

lemma normalize_ascii_lupin: "normalize_title ascii_only (cps ''Lupin'') = cps ''lupin''"
  by (simp add: normalize_eval)

lemma normalize_ascii_dark_x: "normalize_title ascii_only (cps ''Dark: X'') = cps ''dark x''"
  by (simp add: normalize_eval)

lemma base_title_ascii_dark_x: "base_title ascii_only (cps ''Dark: X'') = cps ''Dark''"
  by (simp add: base_title_def class_eval string_eval)

lemma longest_lupin_dark:
  "find_longest_match (cps ''lupin'') (cps ''dark'') 0 5 0 4 = (0, 0, 0)"
  by (simp add: difflib_eval)

lemma longest_lupin_dark_x:
  "find_longest_match (cps ''lupin'') (cps ''dark x'') 0 5 0 6 = (0, 0, 0)"
  by (simp add: difflib_eval)

lemma longest_dark_dark:
  "find_longest_match (cps ''dark'') (cps ''dark'') 0 4 0 4 = (0, 0, 4)"
  by (simp add: difflib_eval)

lemma longest_dark_dark_x:
  "find_longest_match (cps ''dark'') (cps ''dark x'') 0 4 0 6 = (0, 0, 4)"
  by (simp add: difflib_eval)

lemma seq_ratio_lupin_dark: "seq_ratio (cps ''lupin'') (cps ''dark'') = 0"
  by (subst seq_ratio_at [of _ 5 _ 4], simp, simp, subst matches.simps)
    (simp add: longest_lupin_dark [simplified])

lemma seq_ratio_lupin_dark_x: "seq_ratio (cps ''lupin'') (cps ''dark x'') = 0"
  by (subst seq_ratio_at [of _ 5 _ 6], simp, simp, subst matches.simps)
    (simp add: longest_lupin_dark_x [simplified])

lemma seq_ratio_dark_dark: "seq_ratio (cps ''dark'') (cps ''dark'') = 1"
  by (subst seq_ratio_at [of _ 4 _ 4], simp, simp, subst matches.simps)
    (simp add: longest_dark_dark [simplified])

lemma seq_ratio_dark_dark_x: "seq_ratio (cps ''dark'') (cps ''dark x'') = 4 / 5"
  by (subst seq_ratio_at [of _ 4 _ 6], simp, simp, subst matches.simps)
    (simp add: longest_dark_dark_x [simplified])

lemma adjust_lupin: "adjust_score ascii_only 1 True (cps ''Lupin'') 0 = 0.07"
  by (simp add: score_eval)

lemma adjust_dark_series: "adjust_score ascii_only 1 True (cps ''Dark'') 1 = 1.07"
  by (simp add: score_eval)

lemma adjust_dark_movie: "adjust_score ascii_only 1 False (cps ''Dark'') 1 = 1.02"
  by (simp add: score_eval)



lemma score_lupin_for_dark_x:
  "score_card ascii_only (cps ''dark x'') (cps ''dark'') 1 (cps ''https://movielinkbd.shop'')
       (cps ''/series/lupin'') (cps ''Lupin'') None
     = \<lparr>c_href = cps ''https://movielinkbd.shop/series/lupin'', c_score = 0.07,
        c_is_series = True, c_title = cps ''Lupin''\<rparr>"
  unfolding score_card_def base_score_def normalize_ascii_lupin Let_def seq_ratio_lupin_dark
    seq_ratio_lupin_dark_x
  by (simp add: adjust_lupin [simplified] is_series_type_def absolute_def)

lemma score_dark_movie_for_dark_x:
  "score_card ascii_only (cps ''dark x'') (cps ''dark'') 1 (cps ''https://movielinkbd.shop'')
       (cps ''/movie/dark'') (cps ''Dark'') (Some (cps ''Movie''))
     = \<lparr>c_href = cps ''https://movielinkbd.shop/movie/dark'', c_score = 1.02,
        c_is_series = False, c_title = cps ''Dark''\<rparr>"
  unfolding score_card_def base_score_def normalize_ascii_dark_plain Let_def seq_ratio_dark_dark
    seq_ratio_dark_dark_x
  by (simp add: adjust_dark_movie [simplified] is_series_type_def absolute_def string_eval)

lemma score_dark_series_for_dark:
  "score_card ascii_only (cps ''dark'') (cps ''dark'') 1 (cps ''https://movielinkbd.shop'')
       (cps ''/series/dark'') (cps ''Dark'') (Some (cps ''Series''))
     = \<lparr>c_href = cps ''https://movielinkbd.shop/series/dark'', c_score = 1.07,
        c_is_series = True, c_title = cps ''Dark''\<rparr>"
  unfolding score_card_def base_score_def normalize_ascii_dark_plain Let_def seq_ratio_dark_dark
  by (simp add: adjust_dark_series [simplified] is_series_type_def absolute_def string_eval)

definition lupin_card :: card where
  "lupin_card = \<lparr>anchor = Some (cps ''/series/lupin'', cps ''Lupin''), type_span = None\<rparr>"

definition dark_series_card :: card where
  "dark_series_card =
     \<lparr>anchor = Some (cps ''/series/dark'', cps ''Dark''), type_span = Some (cps ''Series'')\<rparr>"

definition dark_movie_card :: card where
  "dark_movie_card =
     \<lparr>anchor = Some (cps ''/movie/dark'', cps ''Dark''), type_span = Some (cps ''Movie'')\<rparr>"


definition first_mirror_has_dark :: fetch where
  "first_mirror_has_dark host query =
     (if host = cps ''https://moviexp.movielinkbd.sbs'' then Status 200 [dark_series_card]
      else Status 200 [])"

definition second_mirror_down :: fetch where
  "second_mirror_down host query =
     (if host = cps ''https://moviexp.movielinkbd.sbs'' then Status 200 [dark_series_card]
      else Raised)"

definition series_then_movie :: fetch where
  "series_then_movie host query =
     (if query = cps ''Dark: X'' then Status 200 [lupin_card] else Status 200 [dark_movie_card])"

lemmas resolve_eval =
  resolve_tv_def query_variants_def scan0_def search_hosts_def rank_def replaces_def
  lupin_card_def dark_series_card_def dark_movie_card_def





lemma run_first_mirror_has_dark:
  "resolve_tv ascii_only first_mirror_has_dark (cps ''Dark'') 1 =
     (NoCandidate,
      \<lparr>soup = Some [], candidates = [], best_overall = None,
       requests = [(cps ''https://moviexp.movielinkbd.sbs'', cps ''Dark''),
                   (cps ''https://movielinkbd.shop'', cps ''Dark''),
                   (cps ''https://moviexp.movielinkbd.sbs'', cps ''Dark''),
                   (cps ''https://movielinkbd.shop'', cps ''Dark'')],
       n_scored = 0\<rparr>)"
  by (simp add: resolve_eval first_mirror_has_dark_def normalize_ascii_dark_plain [simplified]
      base_title_ascii_dark [simplified])

text \<open>
  Claim C3 fails in the code.  The loop over the cards stands behind the loop over
  the mirrors, so every mirror is asked before a card is looked at, and a page of
  the first mirror is dropped as soon as the second mirror answers.  Here the first
  mirror lists \<open>Dark\<close> as a series, which scores \<open>1.07\<close>, and the second
  mirror answers with an empty page: four requests are sent and nothing is found.
\<close>

theorem first_mirror_hit_is_lost:
  "score_card ascii_only (normalize_title ascii_only (cps ''Dark''))
       (normalize_title ascii_only (base_title ascii_only (cps ''Dark''))) 1
       (last search_hosts) (cps ''/series/dark'') (cps ''Dark'') (Some (cps ''Series''))
     = \<lparr>c_href = cps ''https://movielinkbd.shop/series/dark'', c_score = 1.07,
        c_is_series = True, c_title = cps ''Dark''\<rparr> \<and>
   returned (fst (resolve_tv ascii_only first_mirror_has_dark (cps ''Dark'') 1)) = None \<and>
   requests (snd (resolve_tv ascii_only first_mirror_has_dark (cps ''Dark'') 1))
     = [(cps ''https://moviexp.movielinkbd.sbs'', cps ''Dark''),
        (cps ''https://movielinkbd.shop'', cps ''Dark''),
        (cps ''https://moviexp.movielinkbd.sbs'', cps ''Dark''),
        (cps ''https://movielinkbd.shop'', cps ''Dark'')]"
  unfolding run_first_mirror_has_dark base_title_ascii_dark normalize_ascii_dark_plain
    last_search_hosts score_dark_series_for_dark
  by simp

text \<open>
  With a second mirror that raises, the card of the first mirror is accepted, after
  the request to the second mirror, and its link is completed with the address of
  the second mirror.
\<close>

lemma run_second_mirror_down:
  "resolve_tv ascii_only second_mirror_down (cps ''Dark'') 1 =
     (Immediate (cps ''https://movielinkbd.shop/series/dark''),
      \<lparr>soup = Some [dark_series_card],
       candidates = [\<lparr>c_href = cps ''https://movielinkbd.shop/series/dark'', c_score = 1.07,
                       c_is_series = True, c_title = cps ''Dark''\<rparr>],
       best_overall = None,
       requests = [(cps ''https://moviexp.movielinkbd.sbs'', cps ''Dark''),
                   (cps ''https://movielinkbd.shop'', cps ''Dark'')],
       n_scored = 1\<rparr>)"
  by (simp add: resolve_eval second_mirror_down_def normalize_ascii_dark_plain [simplified]
      base_title_ascii_dark [simplified] score_dark_series_for_dark [simplified])

text \<open>
  Claim C4 fails in the code.  \<open>best\<close> replaces \<open>best_overall\<close> whenever its
  score is higher, series or not.  The first query finds the series \<open>Lupin\<close>
  (\<open>0.07\<close>), the second the movie \<open>Dark\<close> (\<open>1.02\<close>), and the movie is
  returned, although a series ranks before every movie in the order of the sort.
\<close>

theorem movie_displaces_series:
  "score_card ascii_only (normalize_title ascii_only (cps ''Dark: X''))
       (normalize_title ascii_only (base_title ascii_only (cps ''Dark: X''))) 1
       (last search_hosts) (cps ''/series/lupin'') (cps ''Lupin'') None
     = \<lparr>c_href = cps ''https://movielinkbd.shop/series/lupin'', c_score = 0.07,
        c_is_series = True, c_title = cps ''Lupin''\<rparr> \<and>
   score_card ascii_only (normalize_title ascii_only (cps ''Dark: X''))
       (normalize_title ascii_only (base_title ascii_only (cps ''Dark: X''))) 1
       (last search_hosts) (cps ''/movie/dark'') (cps ''Dark'') (Some (cps ''Movie''))
     = \<lparr>c_href = cps ''https://movielinkbd.shop/movie/dark'', c_score = 1.02,
        c_is_series = False, c_title = cps ''Dark''\<rparr> \<and>
   fst (resolve_tv ascii_only series_then_movie (cps ''Dark: X'') 1)
     = Final (cps ''https://movielinkbd.shop/movie/dark'')"
proof (intro conjI)
  show "fst (resolve_tv ascii_only series_then_movie (cps ''Dark: X'') 1)
     = Final (cps ''https://movielinkbd.shop/movie/dark'')"
    by (simp add: resolve_eval series_then_movie_def normalize_ascii_dark_plain [simplified]
      normalize_ascii_dark_x [simplified]
      base_title_ascii_dark_x [simplified] score_lupin_for_dark_x [simplified]
      score_dark_movie_for_dark_x [simplified])
qed (simp_all only: base_title_ascii_dark_x normalize_ascii_dark_x normalize_ascii_dark_plain
      last_search_hosts score_lupin_for_dark_x score_dark_movie_for_dark_x)

section \<open>The search cache (movielinkbd_api.py, lines 36--67)\<close>

text \<open>
  \<open>search_cache\<close> is a module-level dict from cache key to
  \<open>{'data': ..., 'timestamp': ...}\<close>.  The functions read the clock and mutate
  the dict; here the clock reading \<open>now\<close> is an argument and the dict is passed in
  and returned.
\<close>

record 'd cache_entry =
  data :: 'd
  timestamp :: real

type_synonym 'd cache = "pystr \<rightharpoonup> 'd cache_entry"

definition search_cache_ttl :: real where
  "search_cache_ttl = 1800"

definition get_cached_search_result ::
  "real \<Rightarrow> pystr \<Rightarrow> 'd cache \<Rightarrow> 'd option \<times> 'd cache" where
  "get_cached_search_result now cache_key search_cache =
     (case search_cache cache_key of
        None \<Rightarrow> (None, search_cache)
      | Some cached_data \<Rightarrow>
          if now - timestamp cached_data < search_cache_ttl
          then (Some (data cached_data), search_cache)
          else (None, search_cache(cache_key := None)))"

definition cache_search_result ::
  "real \<Rightarrow> pystr \<Rightarrow> 'd \<Rightarrow> 'd cache \<Rightarrow> 'd cache" where
  "cache_search_result now cache_key d search_cache =
     search_cache(cache_key \<mapsto> \<lparr>data = d, timestamp = now\<rparr>)"

lemma get_cached_search_result_entry:
  "get_cached_search_result now k (c(k \<mapsto> \<lparr>data = d, timestamp = T\<rparr>)) =
     (if now < T + search_cache_ttl
      then (Some d, c(k \<mapsto> \<lparr>data = d, timestamp = T\<rparr>))
      else (None, c(k := None)))"
  by (auto simp add: get_cached_search_result_def)


section \<open>The cache key\<close>

unbundle bit_operations_syntax

subsection \<open>str.encode()\<close>

text \<open>
  UTF-8, the default of \<open>encode\<close>; \<open>None\<close> is the \<open>UnicodeEncodeError\<close>
  raised for a surrogate.  Bytes are natural numbers below 256.
\<close>

type_synonym byte = nat

definition utf8_char :: "nat \<Rightarrow> byte list option" where
  "utf8_char c =
     (if c < 128 then Some [c]
      else if c < 2048 then Some [192 + c div 64, 128 + c mod 64]
      else if c < 65536
      then (if 55296 \<le> c \<and> c < 57344 then None
            else Some [224 + c div 4096, 128 + c div 64 mod 64, 128 + c mod 64])
      else if c < 1114112
      then Some [240 + c div 262144, 128 + c div 4096 mod 64, 128 + c div 64 mod 64,
                 128 + c mod 64]
      else None)"

fun utf8_encode :: "pystr \<Rightarrow> byte list option" where
  "utf8_encode [] = Some []"
| "utf8_encode (c # cs) =
     (case utf8_char c of
        None \<Rightarrow> None
      | Some bs \<Rightarrow> (case utf8_encode cs of None \<Rightarrow> None | Some rest \<Rightarrow> Some (bs @ rest)))"

subsection \<open>hashlib.md5(...).hexdigest()\<close>

text \<open>
  MD5 as RFC 1321 defines it, on 32-bit words: the sine table, the shift amounts,
  the four round functions, and the order in which a round reads the words of the
  block.
\<close>

definition md5_k :: "32 word list" where
  "md5_k =
     [3614090360, 3905402710, 606105819, 3250441966, 4118548399, 1200080426,
      2821735955, 4249261313, 1770035416, 2336552879, 4294925233, 2304563134,
      1804603682, 4254626195, 2792965006, 1236535329, 4129170786, 3225465664,
      643717713, 3921069994, 3593408605, 38016083, 3634488961, 3889429448,
      568446438, 3275163606, 4107603335, 1163531501, 2850285829, 4243563512,
      1735328473, 2368359562, 4294588738, 2272392833, 1839030562, 4259657740,
      2763975236, 1272893353, 4139469664, 3200236656, 681279174, 3936430074,
      3572445317, 76029189, 3654602809, 3873151461, 530742520, 3299628645,
      4096336452, 1126891415, 2878612391, 4237533241, 1700485571, 2399980690,
      4293915773, 2240044497, 1873313359, 4264355552, 2734768916, 1309151649,
      4149444226, 3174756917, 718787259, 3951481745]"

definition md5_s :: "nat list" where
  "md5_s =
     [7, 12, 17, 22, 7, 12, 17, 22, 7, 12, 17, 22, 7, 12, 17, 22,
      5, 9, 14, 20, 5, 9, 14, 20, 5, 9, 14, 20, 5, 9, 14, 20,
      4, 11, 16, 23, 4, 11, 16, 23, 4, 11, 16, 23, 4, 11, 16, 23,
      6, 10, 15, 21, 6, 10, 15, 21, 6, 10, 15, 21, 6, 10, 15, 21]"

definition md5_g :: "nat \<Rightarrow> nat" where
  "md5_g i =
     (if i < 16 then i
      else if i < 32 then (5 * i + 1) mod 16
      else if i < 48 then (3 * i + 5) mod 16
      else (7 * i) mod 16)"

definition md5_f :: "nat \<Rightarrow> 32 word \<Rightarrow> 32 word \<Rightarrow> 32 word \<Rightarrow> 32 word" where
  "md5_f i b c d =
     (if i < 16 then (b AND c) OR (NOT b AND d)
      else if i < 32 then (d AND b) OR (NOT d AND c)
      else if i < 48 then b XOR c XOR d
      else c XOR (b OR NOT d))"

definition rotl32 :: "nat \<Rightarrow> 32 word \<Rightarrow> 32 word" where
  "rotl32 s x = push_bit s x OR drop_bit (32 - s) x"

type_synonym md5_state = "32 word \<times> 32 word \<times> 32 word \<times> 32 word"

text \<open>Step \<open>i\<close> with its table entry \<open>k\<close> and its shift \<open>s\<close>.\<close>

definition md5_round :: "32 word list \<Rightarrow> md5_state \<Rightarrow> nat \<Rightarrow> 32 word \<Rightarrow> nat \<Rightarrow> md5_state" where
  "md5_round m st i k s =
     (case st of
        (a, b, c, d) \<Rightarrow> (d, b + rotl32 s (md5_f i b c d + a + k + m ! md5_g i), b, c))"

text \<open>The 64 steps on one block: \<open>i\<close> counts along the two tables.\<close>

fun md5_rounds ::
  "32 word list \<Rightarrow> nat \<Rightarrow> 32 word list \<Rightarrow> nat list \<Rightarrow> md5_state \<Rightarrow> md5_state" where
  "md5_rounds m i (k # ks) (s # ss) st = md5_rounds m (i + 1) ks ss (md5_round m st i k s)"
| "md5_rounds m i ks ss st = st"

text \<open>The sixteen little-endian words of a block.\<close>

fun md5_words :: "byte list \<Rightarrow> 32 word list" where
  "md5_words (b0 # b1 # b2 # b3 # rest) =
     of_nat (b0 + 256 * b1 + 65536 * b2 + 16777216 * b3) # md5_words rest"
| "md5_words bs = []"

definition md5_chunk :: "md5_state \<Rightarrow> byte list \<Rightarrow> md5_state" where
  "md5_chunk st chunk =
     (case st of
        (a0, b0, c0, d0) \<Rightarrow>
          (case md5_rounds (md5_words chunk) 0 md5_k md5_s st of
             (a, b, c, d) \<Rightarrow> (a0 + a, b0 + b, c0 + c, d0 + d)))"

function md5_blocks :: "md5_state \<Rightarrow> byte list \<Rightarrow> md5_state" where
  "md5_blocks st bs =
     (if bs = [] then st else md5_blocks (md5_chunk st (take 64 bs)) (drop 64 bs))"
  by pat_completeness auto
termination
  by (relation "measure (\<lambda>(st, bs). length bs)") auto

declare md5_blocks.simps [simp del]

definition le_bytes4 :: "nat \<Rightarrow> byte list" where
  "le_bytes4 x = [x mod 256, x div 256 mod 256, x div 65536 mod 256, x div 16777216 mod 256]"

text \<open>
  A one bit, zero bits up to 56 modulo 64 bytes, and the length of the message in
  bits as 64 bits, low byte first.
\<close>

definition md5_pad :: "byte list \<Rightarrow> byte list" where
  "md5_pad msg =
     msg @ [128] @ replicate ((55 + 64 - length msg mod 64) mod 64) 0
       @ le_bytes4 (8 * length msg mod 4294967296)
       @ le_bytes4 (8 * length msg div 4294967296 mod 4294967296)"

definition md5 :: "byte list \<Rightarrow> byte list" where
  "md5 msg =
     (case md5_blocks (1732584193, 4023233417, 2562383102, 271733878) (md5_pad msg) of
        (a, b, c, d) \<Rightarrow>
          le_bytes4 (unat a) @ le_bytes4 (unat b) @ le_bytes4 (unat c) @ le_bytes4 (unat d))"

definition hex_digit :: "nat \<Rightarrow> nat" where
  "hex_digit n = (if n < 10 then 48 + n else 87 + n)"

definition hexdigest :: "byte list \<Rightarrow> pystr" where
  "hexdigest bs = concat (map (\<lambda>b. [hex_digit (b div 16), hex_digit (b mod 16)]) bs)"

subsection \<open>get_cache_key (movielinkbd_api.py, lines 47--50)\<close>

text \<open>
  \<open>host\<close> defaults to \<open>None\<close>; \<open>if host\<close> fails for \<open>None\<close> and for the
  empty string.
\<close>

definition key_string :: "pystr \<Rightarrow> pystr option \<Rightarrow> pystr" where
  "key_string query host =
     (case host of
        None \<Rightarrow> query
      | Some h \<Rightarrow> if h \<noteq> [] then query @ [58] @ h else query)"

definition get_cache_key :: "pystr \<Rightarrow> pystr option \<Rightarrow> pystr option" where
  "get_cache_key query host =
     (case utf8_encode (key_string query host) of
        None \<Rightarrow> None
      | Some bs \<Rightarrow> Some (hexdigest (md5 bs)))"

lemma replicate_numeral: "replicate (numeral k) x = x # replicate (pred_numeral k) x"
  by (simp add: numeral_eq_Suc)

lemmas md5_eval =
  md5_def md5_chunk_def md5_round_def md5_f_def md5_g_def md5_k_def md5_s_def
  rotl32_def le_bytes4_def md5_blocks.simps

lemma md5_pad_empty: "md5_pad [] = 128 # replicate 63 0"
  by (simp add: md5_pad_def le_bytes4_def replicate_numeral)

lemma md5_pad_colon: "md5_pad [58] = [58, 128] @ replicate 54 0 @ [8, 0, 0, 0, 0, 0, 0, 0]"
  by (simp add: md5_pad_def le_bytes4_def replicate_numeral)

lemma md5_empty:
  "md5 [] = [212, 29, 140, 217, 143, 0, 178, 4, 233, 128, 9, 152, 236, 248, 66, 126]"
  unfolding md5_def md5_pad_empty by (simp add: md5_eval replicate_numeral)

lemma md5_colon:
  "md5 [58] = [133, 58, 233, 15, 3, 81, 50, 75, 215, 62, 166, 21, 230, 72, 117, 23]"
  unfolding md5_def md5_pad_colon by (simp add: md5_eval replicate_numeral)

lemma cache_key_colon:
  "get_cache_key ([] @ [58] @ []) None = Some (cps ''853ae90f0351324bd73ea615e6487517'')"
  by (simp add: get_cache_key_def key_string_def utf8_char_def md5_colon hexdigest_def
      hex_digit_def)

lemma cache_key_empty:
  "get_cache_key [] (Some []) = Some (cps ''d41d8cd98f00b204e9800998ecf8427e'')"
  by (simp add: get_cache_key_def key_string_def md5_empty hexdigest_def hex_digit_def)

text \<open>
  Claim C10 says, for every pair of strings, that the key of \<open>q + ':' + h\<close>
  without a host is the key of \<open>q\<close> with the host \<open>h\<close>.  An empty host
  counts as no host: for \<open>q = ''\<close> and \<open>h = ''\<close> the first key is the digest of
  \<open>:\<close>, the second the digest of the empty string.
\<close>

theorem cache_key_empty_host:
  "get_cache_key ([] @ [58] @ []) None = Some (cps ''853ae90f0351324bd73ea615e6487517'') \<and>
   get_cache_key [] (Some []) = Some (cps ''d41d8cd98f00b204e9800998ecf8427e'') \<and>
   get_cache_key ([] @ [58] @ []) None \<noteq> get_cache_key [] (Some [])"
  unfolding cache_key_colon cache_key_empty by simp

text \<open>
  Claim C10, amended.  For every \<open>q\<close> and every host \<open>h\<close> that is not empty,
  the two keys are the same (both calls raise for the same strings), and an entry
  cached under the one is served, within its time to live, under the other.
\<close>

theorem cache_key_not_injective:
  "h \<noteq> [] \<Longrightarrow>
   get_cache_key (q @ [58] @ h) None = get_cache_key q (Some h) \<and>
   (\<forall>k k'. get_cache_key (q @ [58] @ h) None = Some k \<longrightarrow>
      get_cache_key q (Some h) = Some k' \<longrightarrow> now < T + 1800 \<longrightarrow>
      get_cached_search_result now k' (cache_search_result T k d c)
        = (Some d, cache_search_result T k d c))"
proof -
  assume "h \<noteq> []"
  then have same: "get_cache_key (q @ [58] @ h) None = get_cache_key q (Some h)"
    by (simp add: get_cache_key_def key_string_def)
  show ?thesis
  proof (intro conjI allI impI)
    show "get_cache_key (q @ [58] @ h) None = get_cache_key q (Some h)" by (rule same)
  next
    fix k k'
    assume "get_cache_key (q @ [58] @ h) None = Some k"
      and "get_cache_key q (Some h) = Some k'" and "now < T + 1800"
    with same show "get_cached_search_result now k' (cache_search_result T k d c)
        = (Some d, cache_search_result T k d c)"
      by (simp add: cache_search_result_def get_cached_search_result_entry
          search_cache_ttl_def)
  qed
qed

lemma cache_key_q_h:
  "get_cache_key (cps ''q'' @ [58] @ cps ''h'') None = Some (hexdigest (md5 [113, 58, 104]))"
  by (simp add: get_cache_key_def key_string_def utf8_char_def)

lemma cache_key_q_host_h:
  "get_cache_key (cps ''q'') (Some (cps ''h'')) = Some (hexdigest (md5 [113, 58, 104]))"
  by (simp add: get_cache_key_def key_string_def utf8_char_def)

theorem cache_key_not_injective_witness:
  "cps ''h'' \<noteq> [] \<and>
   get_cache_key (cps ''q'' @ [58] @ cps ''h'') None = Some (hexdigest (md5 [113, 58, 104])) \<and>
   get_cache_key (cps ''q'') (Some (cps ''h'')) = Some (hexdigest (md5 [113, 58, 104])) \<and>
   (10 :: real) < 0 + 1800 \<and>
   get_cached_search_result 10 (hexdigest (md5 [113, 58, 104]))
       (cache_search_result 0 (hexdigest (md5 [113, 58, 104])) (cps ''payload'') Map.empty)
     = (Some (cps ''payload''),
        cache_search_result 0 (hexdigest (md5 [113, 58, 104])) (cps ''payload'') Map.empty)"
proof -
  have h: "cps ''h'' \<noteq> []" by simp
  have t: "(10 :: real) < 0 + 1800" by simp
  from cache_key_not_injective [OF h, of "cps ''q''" 10 0 "cps ''payload''" Map.empty]
  have "get_cached_search_result 10 (hexdigest (md5 [113, 58, 104]))
       (cache_search_result 0 (hexdigest (md5 [113, 58, 104])) (cps ''payload'') Map.empty)
     = (Some (cps ''payload''),
        cache_search_result 0 (hexdigest (md5 [113, 58, 104])) (cps ''payload'') Map.empty)"
    using cache_key_q_h cache_key_q_host_h t by blast
  with h t cache_key_q_h cache_key_q_host_h show ?thesis by blast
qed

end
